theory Spec2Isabelle
  imports Main
begin

section \<open>Python values\<close>

text \<open>
  Webhook bodies are parsed JSON. The handlers walk them with Python's dynamic
  operators (\<^verbatim>\<open>in\<close>, \<^verbatim>\<open>.get\<close>, subscripts, \<^verbatim>\<open>for\<close>), which raise on values of
  the wrong shape; every such raise is a branch below. \<open>JNull\<close> is Python's \<^verbatim>\<open>None\<close>.
  Numbers are the integers. An object lists each key once, in the order of the
  \<^verbatim>\<open>dict\<close>. A \<^verbatim>\<open>str\<close> is a sequence of code units (non-ASCII text is written in
  UTF-8).
\<close>

datatype json =
    JNull
  | JBool bool
  | JNum int
  | JStr string
  | JArr "json list"
  | JObj "(string \<times> json) list"

datatype exn =
    AttributeError string
  | TypeError string
  | KeyError string
  | IntegrityError string
  | AdapterError string

fun str_exn :: "exn \<Rightarrow> string" where
  "str_exn (AttributeError m) = m"
| "str_exn (TypeError m) = m"
| "str_exn (KeyError k) = [CHR 0x27] @ k @ [CHR 0x27]"
| "str_exn (IntegrityError m) = m"
| "str_exn (AdapterError m) = m"

text \<open>\<^verbatim>\<open>bool(v)\<close>, the truth value of a Python object.\<close>

fun truthy :: "json \<Rightarrow> bool" where
  "truthy JNull = False"
| "truthy (JBool b) = b"
| "truthy (JNum n) = (n \<noteq> 0)"
| "truthy (JStr s) = (s \<noteq> [])"
| "truthy (JArr xs) = (xs \<noteq> [])"
| "truthy (JObj kvs) = (kvs \<noteq> [])"

fun startswith :: "string \<Rightarrow> string \<Rightarrow> bool" where
  "startswith hay [] = True"
| "startswith [] (n # ns) = False"
| "startswith (h # hs) (n # ns) = (h = n \<and> startswith hs ns)"

text \<open>\<^verbatim>\<open>needle in hay\<close> on two strings: \<open>needle\<close> occurs as a contiguous run.\<close>

fun str_contains :: "string \<Rightarrow> string \<Rightarrow> bool" where
  "str_contains needle [] = (needle = [])"
| "str_contains needle (c # cs) = (startswith (c # cs) needle \<or> str_contains needle cs)"

text \<open>\<^verbatim>\<open>key in v\<close> for a string literal \<open>key\<close>.\<close>

fun py_in :: "string \<Rightarrow> json \<Rightarrow> exn + bool" where
  "py_in key (JObj kvs) = Inr (key \<in> set (map fst kvs))"
| "py_in key (JArr xs) = Inr (JStr key \<in> set xs)"
| "py_in key (JStr s) = Inr (str_contains key s)"
| "py_in key v = Inl (TypeError ''argument is not iterable'')"

text \<open>\<^verbatim>\<open>v.get(key, default)\<close>; \<^verbatim>\<open>v.get(key)\<close> is the call with default \<open>JNull\<close>.\<close>

fun py_get :: "json \<Rightarrow> string \<Rightarrow> json \<Rightarrow> exn + json" where
  "py_get (JObj kvs) key dflt = Inr (case map_of kvs key of Some v \<Rightarrow> v | None \<Rightarrow> dflt)"
| "py_get v key dflt = Inl (AttributeError ''object has no attribute get'')"

text \<open>\<^verbatim>\<open>v[key]\<close> for a string literal \<open>key\<close>.\<close>

fun py_subscript :: "json \<Rightarrow> string \<Rightarrow> exn + json" where
  "py_subscript (JObj kvs) key =
     (case map_of kvs key of Some v \<Rightarrow> Inr v | None \<Rightarrow> Inl (KeyError key))"
| "py_subscript (JArr xs) key = Inl (TypeError ''list indices must be integers'')"
| "py_subscript (JStr s) key = Inl (TypeError ''string indices must be integers'')"
| "py_subscript v key = Inl (TypeError ''object is not subscriptable'')"

text \<open>The elements a \<^verbatim>\<open>for\<close> loop over \<open>v\<close> visits.\<close>

fun py_iter :: "json \<Rightarrow> exn + json list" where
  "py_iter (JArr xs) = Inr xs"
| "py_iter (JObj kvs) = Inr (map (\<lambda>kv. JStr (fst kv)) kvs)"
| "py_iter (JStr s) = Inr (map (\<lambda>c. JStr [c]) s)"
| "py_iter v = Inl (TypeError ''object is not iterable'')"

text \<open>
  \<^verbatim>\<open>str(v)\<close>, as an f-string renders a value. A \<^verbatim>\<open>str\<close> renders as itself; inside
  a container it is quoted (without the escapes Python adds for quotes and controls).
\<close>

fun show_nat :: "nat \<Rightarrow> string" where
  "show_nat n =
     (if n < 10 then [''0123456789'' ! n]
      else show_nat (n div 10) @ [''0123456789'' ! (n mod 10)])"

declare show_nat.simps [simp del]

definition show_int :: "int \<Rightarrow> string" where
  "show_int i = (if i < 0 then ''-'' @ show_nat (nat (- i)) else show_nat (nat i))"

fun join :: "string \<Rightarrow> string list \<Rightarrow> string" where
  "join sep [] = []"
| "join sep [x] = x"
| "join sep (x # y # ys) = x @ sep @ join sep (y # ys)"

primrec py_repr :: "json \<Rightarrow> string" where
  "py_repr JNull = ''None''"
| "py_repr (JBool b) = (if b then ''True'' else ''False'')"
| "py_repr (JNum n) = show_int n"
| "py_repr (JStr s) = [CHR 0x27] @ s @ [CHR 0x27]"
| "py_repr (JArr xs) = ''['' @ join '', '' (map py_repr xs) @ '']''"
| "py_repr (JObj kvs) =
     ''{'' @ join '', ''
              (map (\<lambda>kv. [CHR 0x27] @ fst kv @ [CHR 0x27] @ '': '' @ snd kv)
                   (map (map_prod id py_repr) kvs)) @ ''}''"

definition py_str :: "json \<Rightarrow> string" where
  "py_str v = (case v of JStr s \<Rightarrow> s | _ \<Rightarrow> py_repr v)"

section \<open>Data model (models.py)\<close>

text \<open>
  A naive UTC \<^verbatim>\<open>datetime\<close>: the calendar day as an ordinal and the time within it;
  \<open>date\<close> is \<^verbatim>\<open>.date()\<close>.
\<close>

datatype datetime = DateTime (date: int) (time_of_day: nat)

text \<open>
  The columns the modelled operations read or write. Columns shared by several
  tables, and names Isabelle reserves, carry the table's initial. \<open>None\<close> is SQL NULL.
  The insert-time stamps \<^verbatim>\<open>created_at\<close> and \<^verbatim>\<open>received_at\<close> are not among them and
  their clock readings are not counted.
\<close>

record client =
  c_id :: int
  access_token :: string
  instagram_account_id :: string
  verify_token :: string
  c_keywords :: "string list option"
  auto_reply_enabled :: bool
  custom_responses :: "(string \<times> string) list option"
  c_active :: bool
  updated_at :: "datetime option"
  daily_message_limit :: int
  messages_sent_today :: int
  last_reset_date :: "datetime option"

record message =
  m_client_id :: int
  recipient_id :: json
  message_type :: string
  message_text :: json
  media_url :: "string option"
  sent :: bool
  m_error :: "string option"

record webhook =
  w_id :: int
  w_client_id :: "int option"
  event_type :: string
  payload :: json
  processed :: bool
  w_error :: "string option"
  processed_at :: "datetime option"

record api_key =
  k_id :: int
  k_client_id :: int
  k_key :: string
  k_active :: bool
  last_used_at :: "datetime option"

text \<open>A request the Outbound Client Adapter issues, with the credentials it carries.\<close>

datatype api_call =
    Send_message string string json json
  | Reply_to_comment string json json

text \<open>
  The world a request runs in: the four tables, the requests issued to the
  Graph API so far, and the number of clock readings taken so far.
\<close>

record world =
  clients :: "client list"
  messages :: "message list"
  webhooks :: "webhook list"
  api_keys :: "api_key list"
  api_calls :: "api_call list"
  ticks :: nat

text \<open>
  What the program takes from outside: the successive readings of
  \<^verbatim>\<open>datetime.utcnow()\<close>, the outcome of the n-th Graph API request, and Python's
  \<^verbatim>\<open>str.lower()\<close>. \<^verbatim>\<open>_make_request\<close> returns the decoded body, or \<^verbatim>\<open>None\<close>
  (\<open>Inr JNull\<close>) after a \<^verbatim>\<open>RequestException\<close>; any other exception leaves it
  (\<open>Inl\<close>). \<^verbatim>\<open>str.lower()\<close> follows the Unicode tables of the interpreter, which
  are no part of the repository: \<open>lower\<close> stands for it, and every property
  below holds for whatever function it is.
\<close>

record env =
  clock :: "nat \<Rightarrow> datetime"
  api_reply :: "nat \<Rightarrow> exn + json"
  lower :: "string \<Rightarrow> string"

definition utcnow :: "env \<Rightarrow> world \<Rightarrow> datetime \<times> world" where
  "utcnow e w = (clock e (ticks w), w\<lparr>ticks := Suc (ticks w)\<rparr>)"

section \<open>Tenant Directory and Quota Tracker (client_manager.py)\<close>

definition get_client :: "int \<Rightarrow> world \<Rightarrow> client option" where
  "get_client client_id w = find (\<lambda>c. c_id c = client_id) (clients w)"

definition get_client_by_verify_token :: "string \<Rightarrow> world \<Rightarrow> client option" where
  "get_client_by_verify_token tok w = find (\<lambda>c. verify_token c = tok) (clients w)"

text \<open>Writing through the session: the row with this primary key is replaced.\<close>

definition store_client :: "int \<Rightarrow> (client \<Rightarrow> client) \<Rightarrow> world \<Rightarrow> world" where
  "store_client client_id f w =
     w\<lparr>clients := map (\<lambda>c. if c_id c = client_id then f c else c) (clients w)\<rparr>"

text \<open>
  \<^verbatim>\<open>self.db.commit()\<close> after attribute assignments on a loaded tenant row, from
  the loaded row \<open>old\<close> to the assigned row \<open>new\<close>. The session issues an UPDATE
  only when a column value differs from the loaded one, and with the UPDATE the
  column \<open>updated_at\<close>, declared \<^verbatim>\<open>onupdate=datetime.utcnow\<close>, takes a new clock
  reading.
\<close>

definition commit_client :: "env \<Rightarrow> client \<Rightarrow> client \<Rightarrow> world \<Rightarrow> world" where
  "commit_client e old new w =
     (if new = old then w
      else (let (t, w1) = utcnow e w
            in store_client (c_id old) (\<lambda>c. new\<lparr>updated_at := Some t\<rparr>) w1))"

definition check_rate_limit :: "env \<Rightarrow> int \<Rightarrow> world \<Rightarrow> bool \<times> world" where
  "check_rate_limit e client_id w =
     (case get_client client_id w of
        None \<Rightarrow> (False, w)
      | Some cl \<Rightarrow>
          (let (t, w1) = utcnow e w;
               today = date t;
               last_reset = map_option date (last_reset_date cl)
           in if last_reset \<noteq> Some today
              then (let (t2, w2) = utcnow e w1;
                        cl' = cl\<lparr>messages_sent_today := 0, last_reset_date := Some t2\<rparr>;
                        w3 = commit_client e cl cl' w2
                    in (messages_sent_today cl' < daily_message_limit cl', w3))
              else (messages_sent_today cl < daily_message_limit cl, w1)))"

text \<open>
  The counter is a Python \<^verbatim>\<open>int\<close>. The bound of the storage engine on an Integer
  column is not modelled: the increment is the one the engine stores.
\<close>

definition increment_message_count :: "env \<Rightarrow> int \<Rightarrow> world \<Rightarrow> world" where
  "increment_message_count e client_id w =
     (case get_client client_id w of
        None \<Rightarrow> w
      | Some cl \<Rightarrow>
          commit_client e cl (cl\<lparr>messages_sent_today := messages_sent_today cl + 1\<rparr>) w)"

text \<open>
  \<^verbatim>\<open>update_client(client_id, **kwargs)\<close>: the keyword arguments are the column
  assignments, applied in order; a key that is no attribute of the row is skipped.
  \<open>updated_at\<close> is assigned by the function itself.
\<close>

datatype client_field =
    Set_access_token string
  | Set_instagram_account_id string
  | Set_verify_token string
  | Set_keywords "string list option"
  | Set_auto_reply_enabled bool
  | Set_custom_responses "(string \<times> string) list option"
  | Set_active bool
  | Set_daily_message_limit int
  | Set_messages_sent_today int
  | Set_last_reset_date "datetime option"
  | No_such_attribute string json

fun setattr :: "client_field \<Rightarrow> client \<Rightarrow> client" where
  "setattr (Set_access_token v) c = c\<lparr>access_token := v\<rparr>"
| "setattr (Set_instagram_account_id v) c = c\<lparr>instagram_account_id := v\<rparr>"
| "setattr (Set_verify_token v) c = c\<lparr>verify_token := v\<rparr>"
| "setattr (Set_keywords v) c = c\<lparr>c_keywords := v\<rparr>"
| "setattr (Set_auto_reply_enabled v) c = c\<lparr>auto_reply_enabled := v\<rparr>"
| "setattr (Set_custom_responses v) c = c\<lparr>custom_responses := v\<rparr>"
| "setattr (Set_active v) c = c\<lparr>c_active := v\<rparr>"
| "setattr (Set_daily_message_limit v) c = c\<lparr>daily_message_limit := v\<rparr>"
| "setattr (Set_messages_sent_today v) c = c\<lparr>messages_sent_today := v\<rparr>"
| "setattr (Set_last_reset_date v) c = c\<lparr>last_reset_date := v\<rparr>"
| "setattr (No_such_attribute k v) c = c"

definition update_client :: "env \<Rightarrow> int \<Rightarrow> client_field list \<Rightarrow> world \<Rightarrow> client option \<times> world" where
  "update_client e client_id kwargs w =
     (case get_client client_id w of
        None \<Rightarrow> (None, w)
      | Some cl \<Rightarrow>
          (let (t, w1) = utcnow e w;
               cl' = (fold setattr kwargs cl)\<lparr>updated_at := Some t\<rparr>
           in (Some cl', store_client client_id (\<lambda>c. cl') w1)))"

definition deactivate_client :: "env \<Rightarrow> int \<Rightarrow> world \<Rightarrow> bool \<times> world" where
  "deactivate_client e client_id w =
     (let (r, w') = update_client e client_id [Set_active False] w in (r \<noteq> None, w'))"

definition activate_client :: "env \<Rightarrow> int \<Rightarrow> world \<Rightarrow> bool \<times> world" where
  "activate_client e client_id w =
     (let (r, w') = update_client e client_id [Set_active True] w in (r \<noteq> None, w'))"

text \<open>
  \<^verbatim>\<open>log_message\<close>: the insert is refused when \<open>recipient_id\<close>, declared
  \<^verbatim>\<open>nullable=False\<close>, is \<^verbatim>\<open>None\<close>; the session is rolled back and the error raised
  again. A record with \<open>sent\<close> set counts against the quota. The declared constraint
  is the only refusal modelled: what the storage engine does with a list or an
  object handed to a string column is left open, and the properties below are
  stated for recipients and texts that are strings.
\<close>

definition log_message ::
  "env \<Rightarrow> int \<Rightarrow> json \<Rightarrow> string \<Rightarrow> json \<Rightarrow> string option \<Rightarrow> bool \<Rightarrow> string option \<Rightarrow> world
     \<Rightarrow> (exn + message) \<times> world" where
  "log_message e client_id recipient mtype text media snt err w =
     (let m = \<lparr>m_client_id = client_id, recipient_id = recipient, message_type = mtype,
                message_text = text, media_url = media, sent = snt, m_error = err\<rparr>
      in if recipient = JNull
         then (Inl (IntegrityError ''NOT NULL constraint failed: messages.recipient_id''), w)
         else (let w1 = w\<lparr>messages := messages w @ [m]\<rparr>;
                   w2 = (if snt then increment_message_count e client_id w1 else w1)
               in (Inr m, w2)))"

definition log_webhook :: "string \<Rightarrow> json \<Rightarrow> int option \<Rightarrow> world \<Rightarrow> webhook \<times> world" where
  "log_webhook etype pl client_id w =
     (let wh = \<lparr>w_id = fold max (map w_id (webhooks w)) 0 + 1, w_client_id = client_id,
                 event_type = etype, payload = pl, processed = False, w_error = None,
                 processed_at = None\<rparr>
      in (wh, w\<lparr>webhooks := webhooks w @ [wh]\<rparr>))"

definition mark_webhook_processed :: "env \<Rightarrow> int \<Rightarrow> string option \<Rightarrow> world \<Rightarrow> world" where
  "mark_webhook_processed e webhook_id err w =
     (case find (\<lambda>h. w_id h = webhook_id) (webhooks w) of
        None \<Rightarrow> w
      | Some wh \<Rightarrow>
          (let (t, w1) = utcnow e w;
               upd = (\<lambda>h. let h1 = h\<lparr>processed := True, processed_at := Some t\<rparr>
                          in (case err of
                                None \<Rightarrow> h1
                              | Some msg \<Rightarrow> if msg \<noteq> [] then h1\<lparr>w_error := Some msg\<rparr> else h1))
           in w1\<lparr>webhooks := map (\<lambda>h. if w_id h = webhook_id then upd h else h) (webhooks w1)\<rparr>))"

definition validate_api_key :: "env \<Rightarrow> string \<Rightarrow> world \<Rightarrow> client option \<times> world" where
  "validate_api_key e key w =
     (case find (\<lambda>k. k_key k = key \<and> k_active k) (api_keys w) of
        None \<Rightarrow> (None, w)
      | Some ak \<Rightarrow>
          (let (t, w1) = utcnow e w;
               w2 = w1\<lparr>api_keys := map (\<lambda>k. if k_id k = k_id ak then k\<lparr>last_used_at := Some t\<rparr> else k)
                                      (api_keys w1)\<rparr>
           in (get_client (k_client_id ak) w2, w2)))"

section \<open>Outbound Client Adapter (instagram_api.py)\<close>

text \<open>
  Each call issues one request with the tenant's credentials and hands back its
  outcome. \<open>api_send_message\<close> is \<^verbatim>\<open>InstagramAPI.send_message\<close>; the name
  \<open>send_message\<close> is kept for the route of app.py. Names that start with an
  underscore in the source are written without it.
\<close>

definition make_request :: "env \<Rightarrow> api_call \<Rightarrow> world \<Rightarrow> (exn + json) \<times> world" where
  "make_request e call w = (api_reply e (length (api_calls w)), w\<lparr>api_calls := api_calls w @ [call]\<rparr>)"

definition api_send_message :: "env \<Rightarrow> client \<Rightarrow> json \<Rightarrow> json \<Rightarrow> world \<Rightarrow> (exn + json) \<times> world" where
  "api_send_message e cl recipient text w =
     make_request e (Send_message (instagram_account_id cl) (access_token cl) recipient text) w"

definition reply_to_comment :: "env \<Rightarrow> client \<Rightarrow> json \<Rightarrow> json \<Rightarrow> world \<Rightarrow> (exn + json) \<times> world" where
  "reply_to_comment e cl comment_id text w =
     make_request e (Reply_to_comment (access_token cl) comment_id text) w"

section \<open>Policy Engine (handlers.py)\<close>

text \<open>
  A handler is constructed with the tenant row (\<^verbatim>\<open>self.client\<close>) and reads from it
  the id, the credentials, the auto-reply flag, the keywords and the custom
  responses. The quota operations it calls go through the session and change
  only the counter and the reset date, so the row is passed as a value.
\<close>

text \<open>\<^verbatim>\<open>v.lower()\<close> on a payload value: only a \<^verbatim>\<open>str\<close> has the method.\<close>

definition py_lower :: "env \<Rightarrow> json \<Rightarrow> exn + string" where
  "py_lower e v =
     (case v of
        JStr s \<Rightarrow> Inr (lower e s)
      | _ \<Rightarrow> Inl (AttributeError ''object has no attribute lower''))"

text \<open>\<^verbatim>\<open>any(word in text_lower for word in words)\<close>\<close>

definition any_word_in :: "string list \<Rightarrow> string \<Rightarrow> bool" where
  "any_word_in ws text_lower = list_ex (\<lambda>word. str_contains word text_lower) ws"

definition get_default_response :: "string \<Rightarrow> string" where
  "get_default_response text_lower =
     (if any_word_in [''oi'', ''ol'' @ [CHR 0xC3, CHR 0xA1], ''ola'', ''hey'', ''boa''] text_lower
      then ''Ol'' @ [CHR 0xC3, CHR 0xA1] @ ''! '' @ [CHR 0xF0, CHR 0x9F, CHR 0x91, CHR 0x8B]
           @ '' Como posso ajudar voc'' @ [CHR 0xC3, CHR 0xAA] @ '' hoje?''
      else if any_word_in [''pre'' @ [CHR 0xC3, CHR 0xA7] @ ''o'', ''preco'', ''valor'', ''quanto custa'']
                text_lower
      then [CHR 0xF0, CHR 0x9F, CHR 0x93, CHR 0x8B] @ '' Para informa''
           @ [CHR 0xC3, CHR 0xA7, CHR 0xC3, CHR 0xB5] @ ''es sobre pre'' @ [CHR 0xC3, CHR 0xA7]
           @ ''os, nossa equipe te enviar'' @ [CHR 0xC3, CHR 0xA1] @ '' todos os detalhes em breve!''
      else if any_word_in [''hor'' @ [CHR 0xC3, CHR 0xA1] @ ''rio'', ''horario'', ''atendimento'']
                text_lower
      then [CHR 0xF0, CHR 0x9F, CHR 0x95, CHR 0x90] @ '' Nosso hor'' @ [CHR 0xC3, CHR 0xA1]
           @ ''rio de atendimento:'' @ [CHR 0x0A] @ ''Seg-Sex: 9h '' @ [CHR 0xC3, CHR 0xA0]
           @ ''s 18h'' @ [CHR 0x0A] @ ''S'' @ [CHR 0xC3, CHR 0xA1] @ ''b: 9h '' @ [CHR 0xC3, CHR 0xA0]
           @ ''s 13h''
      else if any_word_in [''cat'' @ [CHR 0xC3, CHR 0xA1] @ ''logo'', ''catalogo'', ''produtos'']
                text_lower
      then [CHR 0xF0, CHR 0x9F, CHR 0x93, CHR 0xB8] @ '' Vou te enviar nosso cat''
           @ [CHR 0xC3, CHR 0xA1] @ ''logo completo!''
      else if any_word_in [''contato'', ''telefone'', ''whatsapp''] text_lower
      then [CHR 0xF0, CHR 0x9F, CHR 0x93, CHR 0x9E]
           @ '' Entre em contato conosco pelos nossos canais oficiais!''
      else ''Obrigado pela sua mensagem! '' @ [CHR 0xF0, CHR 0x9F, CHR 0x99, CHR 0x82]
           @ '' Em breve retornaremos.'')"

text \<open>
  The loop over \<^verbatim>\<open>custom_responses.items()\<close>: the response of the first keyword
  (in stored order) whose lowercase form occurs in the text, \<open>None\<close> when the loop
  ends without a \<^verbatim>\<open>break\<close>.
\<close>

fun scan_custom_responses ::
  "env \<Rightarrow> (string \<times> string) list \<Rightarrow> string \<Rightarrow> string option" where
  "scan_custom_responses e [] text_lower = None"
| "scan_custom_responses e ((keyword, custom_response) # rest) text_lower =
     (if str_contains (lower e keyword) text_lower then Some custom_response
      else scan_custom_responses e rest text_lower)"

text \<open>
  Response selection of \<^verbatim>\<open>process_message\<close>: \<^verbatim>\<open>if not response\<close> is true for
  \<^verbatim>\<open>None\<close> and for the empty string.
\<close>

definition select_response :: "env \<Rightarrow> client \<Rightarrow> string \<Rightarrow> string" where
  "select_response e cl text_lower =
     (let customs = (case custom_responses cl of None \<Rightarrow> [] | Some d \<Rightarrow> d);
          response = scan_custom_responses e customs text_lower
      in (case response of
            None \<Rightarrow> get_default_response text_lower
          | Some r \<Rightarrow> if r = [] then get_default_response text_lower else r))"

text \<open>The \<^verbatim>\<open>except\<close> branch of \<^verbatim>\<open>process_message\<close>: the failure is recorded.\<close>

definition process_message_except ::
  "env \<Rightarrow> client \<Rightarrow> json \<Rightarrow> string \<Rightarrow> exn \<Rightarrow> world \<Rightarrow> (exn + unit) \<times> world" where
  "process_message_except e cl sender_id response err w =
     (case log_message e (c_id cl) sender_id ''dm'' (JStr response) None False (Some (str_exn err)) w of
        (Inl err', w') \<Rightarrow> (Inl err', w')
      | (Inr m, w') \<Rightarrow> (Inr (), w'))"

definition process_message ::
  "env \<Rightarrow> client \<Rightarrow> json \<Rightarrow> json \<Rightarrow> world \<Rightarrow> (exn + unit) \<times> world" where
  "process_message e cl sender_id msg_text w =
     (let (ok, w1) = check_rate_limit e (c_id cl) w
      in if \<not> ok then (Inr (), w1)
         else if \<not> auto_reply_enabled cl then (Inr (), w1)
         else (case py_lower e msg_text of
                 Inl err \<Rightarrow> (Inl err, w1)
               | Inr text_lower \<Rightarrow>
                   (let response = select_response e cl text_lower
                    in (case api_send_message e cl sender_id (JStr response) w1 of
                          (Inl err, w2) \<Rightarrow> process_message_except e cl sender_id response err w2
                        | (Inr result, w2) \<Rightarrow>
                            (case log_message e (c_id cl) sender_id ''dm'' (JStr response) None
                                    (truthy result) None w2 of
                               (Inl err, w3) \<Rightarrow> process_message_except e cl sender_id response err w3
                             | (Inr m, w3) \<Rightarrow> (Inr (), w3))))))"

definition generate_comment_response :: "string \<Rightarrow> json \<Rightarrow> string" where
  "generate_comment_response text_lower username =
     (if any_word_in [''pre'' @ [CHR 0xC3, CHR 0xA7] @ ''o'', ''preco'', ''valor''] text_lower
      then ''@'' @ py_str username @ '' Oi! Enviamos os pre'' @ [CHR 0xC3, CHR 0xA7]
           @ ''os por DM! '' @ [CHR 0xF0, CHR 0x9F, CHR 0x93, CHR 0xA9]
      else if any_word_in [''or'' @ [CHR 0xC3, CHR 0xA7] @ ''amento'', ''orcamento''] text_lower
      then ''@'' @ py_str username @ '' Ol'' @ [CHR 0xC3, CHR 0xA1] @ ''! Vamos te enviar um or''
           @ [CHR 0xC3, CHR 0xA7] @ ''amento personalizado por DM! ''
           @ [CHR 0xF0, CHR 0x9F, CHR 0x92, CHR 0xBC]
      else if any_word_in [''informa'' @ [CHR 0xC3, CHR 0xA7, CHR 0xC3, CHR 0xA3] @ ''o'',
                           ''informacao'', ''info''] text_lower
      then ''@'' @ py_str username @ '' Oi! Te enviamos todas as informa''
           @ [CHR 0xC3, CHR 0xA7, CHR 0xC3, CHR 0xB5] @ ''es por DM! ''
           @ [CHR 0xE2, CHR 0x9C, CHR 0x89, CHR 0xEF, CHR 0xB8, CHR 0x8F]
      else if any_word_in [''contato'', ''whatsapp''] text_lower
      then ''@'' @ py_str username @ '' Te respondemos por DM! ''
           @ [CHR 0xF0, CHR 0x9F, CHR 0x93, CHR 0xB1]
      else ''@'' @ py_str username @ '' Ol'' @ [CHR 0xC3, CHR 0xA1]
           @ ''! Vamos te responder por DM! '' @ [CHR 0xF0, CHR 0x9F, CHR 0x98, CHR 0x8A])"

text \<open>
  \<^verbatim>\<open>process_comment\<close>: its \<^verbatim>\<open>except\<close> branch only writes to the log, so an
  exception of the adapter call or of \<^verbatim>\<open>log_message\<close> ends the handler normally.
\<close>

definition process_comment ::
  "env \<Rightarrow> client \<Rightarrow> json \<Rightarrow> json \<Rightarrow> json \<Rightarrow> world \<Rightarrow> (exn + unit) \<times> world" where
  "process_comment e cl comment_id comment_text username w =
     (let (ok, w1) = check_rate_limit e (c_id cl) w
      in if \<not> ok then (Inr (), w1)
         else if \<not> auto_reply_enabled cl then (Inr (), w1)
         else (case py_lower e comment_text of
                 Inl err \<Rightarrow> (Inl err, w1)
               | Inr text_lower \<Rightarrow>
                   (let client_keywords = (case c_keywords cl of None \<Rightarrow> [] | Some ks \<Rightarrow> ks);
                        should_reply = list_ex (\<lambda>keyword. str_contains (lower e keyword) text_lower)
                                         client_keywords
                    in if should_reply
                       then (let response = generate_comment_response text_lower username
                             in (case reply_to_comment e cl comment_id (JStr response) w1 of
                                   (Inl err, w2) \<Rightarrow> (Inr (), w2)
                                 | (Inr result, w2) \<Rightarrow>
                                     (case log_message e (c_id cl) username ''comment'' (JStr response)
                                             None (truthy result) None w2 of
                                        (Inl err, w3) \<Rightarrow> (Inr (), w3)
                                      | (Inr m, w3) \<Rightarrow> (Inr (), w3))))
                       else (Inr (), w1))))"

definition process_mention ::
  "env \<Rightarrow> client \<Rightarrow> json \<Rightarrow> json \<Rightarrow> world \<Rightarrow> (exn + unit) \<times> world" where
  "process_mention e cl sender_id media_id w =
     (if \<not> auto_reply_enabled cl then (Inr (), w)
      else (let response = ''Obrigado por compartilhar! ''
                           @ [CHR 0xF0, CHR 0x9F, CHR 0x99, CHR 0x8F, CHR 0xE2, CHR 0x9C, CHR 0xA8]
            in (case api_send_message e cl sender_id (JStr response) w of
                  (Inl err, w2) \<Rightarrow> (Inr (), w2)
                | (Inr result, w2) \<Rightarrow>
                    (case log_message e (c_id cl) sender_id ''story_mention'' (JStr response) None
                            (truthy result) None w2 of
                       (Inl err, w3) \<Rightarrow> (Inr (), w3)
                     | (Inr m, w3) \<Rightarrow> (Inr (), w3)))))"

section \<open>Event Router and webhook boundary (app.py)\<close>

text \<open>
  A payload lookup that may raise, followed by the rest of the function: the
  exception leaves the function with the world as it is at that point.
\<close>

definition or_raise ::
  "exn + 'a \<Rightarrow> world \<Rightarrow> ('a \<Rightarrow> (exn + 'b) \<times> world) \<Rightarrow> (exn + 'b) \<times> world" where
  "or_raise r w k = (case r of Inl err \<Rightarrow> (Inl err, w) | Inr v \<Rightarrow> k v)"

text \<open>A \<^verbatim>\<open>for\<close> loop whose body may raise: the first exception ends the loop.\<close>

fun for_each ::
  "('a \<Rightarrow> world \<Rightarrow> (exn + unit) \<times> world) \<Rightarrow> 'a list \<Rightarrow> world \<Rightarrow> (exn + unit) \<times> world" where
  "for_each body [] w = (Inr (), w)"
| "for_each body (x # xs) w =
     (case body x w of
        (Inl err, w') \<Rightarrow> (Inl err, w')
      | (Inr u, w') \<Rightarrow> for_each body xs w')"

definition process_messaging_event ::
  "env \<Rightarrow> json \<Rightarrow> client \<Rightarrow> world \<Rightarrow> (exn + unit) \<times> world" where
  "process_messaging_event e event cl w =
     or_raise (py_get event ''sender'' (JObj [])) w (\<lambda>sender.
     or_raise (py_get sender ''id'' JNull) w (\<lambda>sender_id.
     or_raise (py_in ''message'' event) w (\<lambda>has_message.
       if has_message
       then or_raise (py_subscript event ''message'') w (\<lambda>msg.
            or_raise (py_in ''is_echo'' msg) w (\<lambda>is_echo.
              if is_echo then (Inr (), w)
              else or_raise (py_get msg ''text'' (JStr [])) w (\<lambda>msg_text.
                     if truthy msg_text then process_message e cl sender_id msg_text w
                     else (Inr (), w))))
       else or_raise (py_in ''story_mention'' event) w (\<lambda>has_mention.
              if has_mention
              then or_raise (py_subscript event ''story_mention'') w (\<lambda>story_mention.
                   or_raise (py_get story_mention ''id'' JNull) w (\<lambda>media_id.
                     process_mention e cl sender_id media_id w))
              else (Inr (), w)))))"

definition process_change_event ::
  "env \<Rightarrow> json \<Rightarrow> client \<Rightarrow> world \<Rightarrow> (exn + unit) \<times> world" where
  "process_change_event e change cl w =
     or_raise (py_get change ''field'' JNull) w (\<lambda>field.
     or_raise (py_get change ''value'' JNull) w (\<lambda>val.
       if field = JStr ''comments''
       then or_raise (py_get val ''id'' JNull) w (\<lambda>comment_id.
            or_raise (py_get val ''text'' (JStr [])) w (\<lambda>comment_text.
            or_raise (py_get val ''from'' (JObj [])) w (\<lambda>author.
            or_raise (py_get author ''username'' (JStr ''unknown'')) w (\<lambda>username.
              process_comment e cl comment_id comment_text username w))))
       else (Inr (), w)))"

definition process_entry :: "env \<Rightarrow> client \<Rightarrow> json \<Rightarrow> world \<Rightarrow> (exn + unit) \<times> world" where
  "process_entry e cl entry w =
     (case or_raise (py_in ''messaging'' entry) w (\<lambda>has_messaging.
             if has_messaging
             then or_raise (py_subscript entry ''messaging'') w (\<lambda>messaging.
                  or_raise (py_iter messaging) w (\<lambda>events.
                    for_each (\<lambda>messaging_event. process_messaging_event e messaging_event cl)
                      events w))
             else (Inr (), w)) of
        (Inl err, w1) \<Rightarrow> (Inl err, w1)
      | (Inr u, w1) \<Rightarrow>
          or_raise (py_in ''changes'' entry) w1 (\<lambda>has_changes.
            if has_changes
            then or_raise (py_subscript entry ''changes'') w1 (\<lambda>changes.
                 or_raise (py_iter changes) w1 (\<lambda>chs.
                   for_each (\<lambda>change. process_change_event e change cl) chs w1))
            else (Inr (), w1)))"

text \<open>The loop of \<^verbatim>\<open>webhook_receive\<close> over \<^verbatim>\<open>data['entry']\<close>.\<close>

definition process_entries :: "env \<Rightarrow> client \<Rightarrow> json \<Rightarrow> world \<Rightarrow> (exn + unit) \<times> world" where
  "process_entries e cl data w =
     or_raise (py_in ''entry'' data) w (\<lambda>has_entry.
       if has_entry
       then or_raise (py_subscript data ''entry'') w (\<lambda>entry_list.
            or_raise (py_iter entry_list) w (\<lambda>entries.
              for_each (process_entry e cl) entries w))
       else (Inr (), w))"

text \<open>
  A Flask response: the body and the status code. The views take the request
  body as parsed by \<^verbatim>\<open>request.get_json()\<close>.
\<close>

type_synonym response = "json \<times> nat"

definition webhook_receive :: "env \<Rightarrow> string \<Rightarrow> json \<Rightarrow> world \<Rightarrow> response \<times> world" where
  "webhook_receive e token data w =
     (case get_client_by_verify_token token w of
        None \<Rightarrow> ((JStr ''Forbidden'', 403), w)
      | Some cl \<Rightarrow>
          if \<not> c_active cl then ((JStr ''CLIENT_INACTIVE'', 200), w)
          else (let (wh, w1) = log_webhook ''instagram_event'' data (Some (c_id cl)) w
                in (case process_entries e cl data w1 of
                      (Inl err, w2) \<Rightarrow> ((JStr ''ERROR'', 500), w2)
                    | (Inr u, w2) \<Rightarrow>
                        ((JStr ''EVENT_RECEIVED'', 200),
                         mark_webhook_processed e (w_id wh) None w2))))"

text \<open>
  \<^verbatim>\<open>require_api_key\<close> wraps a view: the \<^verbatim>\<open>X-API-Key\<close> header (\<open>None\<close> when
  absent) must validate to a client, which the view receives. \<open>send_message_view\<close>
  is the body of the route \<^verbatim>\<open>/api/send-message\<close> and \<open>send_message\<close> the decorated
  route.
\<close>

definition require_api_key ::
  "env \<Rightarrow> string option \<Rightarrow> (client \<Rightarrow> world \<Rightarrow> response \<times> world) \<Rightarrow> world \<Rightarrow> response \<times> world" where
  "require_api_key e header f w =
     (case header of
        None \<Rightarrow> ((JObj [(''error'', JStr ''API Key required'')], 401), w)
      | Some key \<Rightarrow>
          if key = [] then ((JObj [(''error'', JStr ''API Key required'')], 401), w)
          else (case validate_api_key e key w of
                  (None, w1) \<Rightarrow> ((JObj [(''error'', JStr ''Invalid API Key'')], 401), w1)
                | (Some cl, w1) \<Rightarrow> f cl w1))"

definition send_message_view :: "env \<Rightarrow> json \<Rightarrow> client \<Rightarrow> world \<Rightarrow> response \<times> world" where
  "send_message_view e data cl w =
     (case or_raise (py_subscript data ''recipient_id'') w (\<lambda>recipient.
           or_raise (py_subscript data ''message'') w (\<lambda>msg_text.
             (case api_send_message e cl recipient msg_text w of
                (Inl err, w2) \<Rightarrow> (Inl err, w2)
              | (Inr result, w2) \<Rightarrow>
                  (case log_message e (c_id cl) recipient ''dm'' msg_text None (truthy result) None
                          w2 of
                     (Inl err, w3) \<Rightarrow> (Inl err, w3)
                   | (Inr m, w3) \<Rightarrow> (Inr result, w3))))) of
        (Inl err, w') \<Rightarrow> ((JObj [(''error'', JStr (str_exn err))], 500), w')
      | (Inr result, w') \<Rightarrow> ((JObj [(''success'', JBool True), (''result'', result)], 200), w'))"

definition send_message :: "env \<Rightarrow> string option \<Rightarrow> json \<Rightarrow> world \<Rightarrow> response \<times> world" where
  "send_message e header data w = require_api_key e header (send_message_view e data) w"

section \<open>Example tenants and events\<close>

text \<open>
  One tenant row, by id, auto-reply flag, daily limit, counter and last reset; it
  monitors the keyword \<^verbatim>\<open>promo\<close> and answers it with the custom response \<^verbatim>\<open>X\<close>.
\<close>

definition tenant :: "int \<Rightarrow> bool \<Rightarrow> int \<Rightarrow> int \<Rightarrow> datetime option \<Rightarrow> client" where
  "tenant i auto lim n reset =
     \<lparr>c_id = i, access_token = ''token'', instagram_account_id = ''account'',
      verify_token = ''verify'', c_keywords = Some [''promo''], auto_reply_enabled = auto,
      custom_responses = Some [(''promo'', ''X'')], c_active = True, updated_at = None,
      daily_message_limit = lim, messages_sent_today = n, last_reset_date = reset\<rparr>"

text \<open>A world holding these tenants and credential keys and nothing else.\<close>

definition directory :: "client list \<Rightarrow> api_key list \<Rightarrow> world" where
  "directory cs ks =
     \<lparr>clients = cs, messages = [], webhooks = [], api_keys = ks, api_calls = [], ticks = 0\<rparr>"

text \<open>
  \<^verbatim>\<open>str.lower()\<close> on the texts of the examples: ASCII letters, and the accented
  Latin capitals from U+00C0 to U+00DE in their two-byte UTF-8 form.
\<close>

definition lower_ascii :: "char \<Rightarrow> char" where
  "lower_ascii c =
     (case map_of (zip ''ABCDEFGHIJKLMNOPQRSTUVWXYZ'' ''abcdefghijklmnopqrstuvwxyz'') c of
        Some l \<Rightarrow> l
      | None \<Rightarrow> c)"

definition lower_latin1 :: "char \<Rightarrow> char" where
  "lower_latin1 c =
     (case map_of (zip [CHR 0x80, CHR 0x81, CHR 0x82, CHR 0x83, CHR 0x84, CHR 0x85, CHR 0x86,
                        CHR 0x87, CHR 0x88, CHR 0x89, CHR 0x8A, CHR 0x8B, CHR 0x8C, CHR 0x8D,
                        CHR 0x8E, CHR 0x8F, CHR 0x90, CHR 0x91, CHR 0x92, CHR 0x93, CHR 0x94,
                        CHR 0x95, CHR 0x96, CHR 0x98, CHR 0x99, CHR 0x9A, CHR 0x9B, CHR 0x9C,
                        CHR 0x9D, CHR 0x9E]
                       [CHR 0xA0, CHR 0xA1, CHR 0xA2, CHR 0xA3, CHR 0xA4, CHR 0xA5, CHR 0xA6,
                        CHR 0xA7, CHR 0xA8, CHR 0xA9, CHR 0xAA, CHR 0xAB, CHR 0xAC, CHR 0xAD,
                        CHR 0xAE, CHR 0xAF, CHR 0xB0, CHR 0xB1, CHR 0xB2, CHR 0xB3, CHR 0xB4,
                        CHR 0xB5, CHR 0xB6, CHR 0xB8, CHR 0xB9, CHR 0xBA, CHR 0xBB, CHR 0xBC,
                        CHR 0xBD, CHR 0xBE]) c of
        Some l \<Rightarrow> l
      | None \<Rightarrow> c)"

fun lower_text :: "string \<Rightarrow> string" where
  "lower_text [] = []"
| "lower_text [c] = [lower_ascii c]"
| "lower_text (c # d # cs) =
     (if c = CHR 0xC3 then c # lower_latin1 d # lower_text cs
      else lower_ascii c # lower_text (d # cs))"

text \<open>Every clock reading falls on day \<open>d\<close>; every Graph API request has outcome \<open>r\<close>.\<close>

definition day_env :: "int \<Rightarrow> (exn + json) \<Rightarrow> env" where
  "day_env d r = \<lparr>clock = (\<lambda>n. DateTime d n), api_reply = (\<lambda>n. r), lower = lower_text\<rparr>"

definition dm_event :: "string \<Rightarrow> json" where
  "dm_event t = JObj [(''sender'', JObj [(''id'', JStr ''user-7'')]),
                      (''message'', JObj [(''text'', JStr t)])]"

definition echo_event :: json where
  "echo_event = JObj [(''sender'', JObj [(''id'', JStr ''account'')]),
                      (''message'', JObj [(''is_echo'', JBool True), (''text'', JStr ''oi'')])]"

definition story_event :: json where
  "story_event = JObj [(''sender'', JObj [(''id'', JStr ''user-7'')]),
                       (''story_mention'', JObj [(''id'', JStr ''media-9'')])]"

text \<open>
  Three rows of tenant 1 on day 11: last reset the day before with five messages
  counted, last reset today with five of ten counted, and last reset today with
  the limit of three reached.
\<close>

definition stale_tenant :: "bool \<Rightarrow> client" where
  "stale_tenant auto = tenant 1 auto 10 5 (Some (DateTime 10 0))"

definition fresh_tenant :: "bool \<Rightarrow> client" where
  "fresh_tenant auto = tenant 1 auto 10 5 (Some (DateTime 11 0))"

definition spent_tenant :: client where
  "spent_tenant = tenant 1 True 3 3 (Some (DateTime 11 0))"

text \<open>
  A tenant whose keyword and whose custom-response key carry accented letters
  (the Portuguese words for price and promotion), and three texts in capitals: a
  price question, the promotion word followed by \<^verbatim>\<open>HOJE\<close>, and a greeting.
\<close>

definition accent_tenant :: client where
  "accent_tenant =
     (fresh_tenant True)
       \<lparr>c_keywords := Some [''pre'' @ [CHR 0xC3, CHR 0xA7] @ ''o''],
        custom_responses :=
          Some [(''promo'' @ [CHR 0xC3, CHR 0xA7, CHR 0xC3, CHR 0xA3] @ ''o'', ''X'')]\<rparr>"

definition price_question :: string where
  "price_question = ''QUAL O PRE'' @ [CHR 0xC3, CHR 0x87] @ ''O?''"

definition promotion_today :: string where
  "promotion_today = ''PROMO'' @ [CHR 0xC3, CHR 0x87, CHR 0xC3, CHR 0x83] @ ''O HOJE''"

definition greeting_caps :: string where
  "greeting_caps = ''OL'' @ [CHR 0xC3, CHR 0x81]"

text \<open>Two tenants with their own verification tokens.\<close>

definition two_tenants :: world where
  "two_tenants =
     directory [(fresh_tenant True)\<lparr>verify_token := ''verify-1''\<rparr>,
                (fresh_tenant True)\<lparr>c_id := 2, verify_token := ''verify-2''\<rparr>] []"

text \<open>
  Two webhook entries: a comment change without its \<^verbatim>\<open>value\<close>, and a direct
  message.
\<close>

definition malformed_comment_entry :: json where
  "malformed_comment_entry = JObj [(''changes'', JArr [JObj [(''field'', JStr ''comments'')]])]"

definition dm_entry :: json where
  "dm_entry = JObj [(''messaging'', JArr [dm_event ''oi''])]"

text \<open>
  A credential key of tenant 1, the world after that tenant's soft delete, and a
  body for the send API.
\<close>

definition live_key :: api_key where
  "live_key = \<lparr>k_id = 1, k_client_id = 1, k_key = ''sk_live'', k_active = True, last_used_at = None\<rparr>"

definition soft_deleted :: world where
  "soft_deleted =
     snd (deactivate_client (day_env 11 (Inr (JBool True))) 1 (directory [fresh_tenant True] [live_key]))"

definition send_body :: json where
  "send_body = JObj [(''recipient_id'', JStr ''user-9''), (''message'', JStr ''hello'')]"

section \<open>Unfolding the model on examples\<close>

lemmas quota_defs = get_client_def store_client_def utcnow_def commit_client_def
  check_rate_limit_def increment_message_count_def Let_def

lemmas example_defs = tenant_def directory_def day_env_def lower_ascii_def lower_latin1_def

section \<open>Tenant rows under the quota operations\<close>

lemma get_client_id: "get_client cid w = Some cl \<Longrightarrow> c_id cl = cid"
  by (auto simp: get_client_def find_Some_iff)

lemma find_replaced:
  assumes "find (\<lambda>c. c_id c = cid) cs = Some cl" and "c_id new = cid"
  shows "find (\<lambda>c. c_id c = cid) (map (\<lambda>c. if c_id c = cid then new else c) cs) = Some new"
  using assms by (induction cs) (auto split: if_splits)

lemma get_client_ticks: "get_client cid (w\<lparr>ticks := n\<rparr>) = get_client cid w"
  by (simp add: get_client_def)


lemma commit_changed:
  assumes "new \<noteq> old"
  shows "commit_client e old new w =
           store_client (c_id old) (\<lambda>c. new\<lparr>updated_at := Some (clock e (ticks w))\<rparr>)
             (w\<lparr>ticks := Suc (ticks w)\<rparr>)"
  using assms by (simp add: commit_client_def utcnow_def)

lemma get_client_commit:
  assumes "get_client cid w = Some old" and "c_id new = cid" and "new \<noteq> old"
  shows "get_client cid (commit_client e old new w)
           = Some (new\<lparr>updated_at := Some (clock e (ticks w))\<rparr>)"
proof -
  have "c_id old = cid" using assms(1) by (rule get_client_id)
  then show ?thesis
    using assms find_replaced [of cid "clients w" old "new\<lparr>updated_at := Some (clock e (ticks w))\<rparr>"]
    by (simp add: commit_changed get_client_def store_client_def)
qed

lemma commit_keeps_log:
  "messages (commit_client e old new w) = messages w
   \<and> api_calls (commit_client e old new w) = api_calls w
   \<and> webhooks (commit_client e old new w) = webhooks w"
  by (simp add: commit_client_def utcnow_def store_client_def)

lemma check_same_day:
  assumes "get_client cid w = Some cl"
    and "map_option date (last_reset_date cl) = Some (date (clock e (ticks w)))"
  shows "check_rate_limit e cid w =
           (messages_sent_today cl < daily_message_limit cl, w\<lparr>ticks := Suc (ticks w)\<rparr>)"
  using assms by (cases "last_reset_date cl") (simp_all add: check_rate_limit_def utcnow_def)

lemma check_new_day:
  assumes "get_client cid w = Some cl"
    and "map_option date (last_reset_date cl) \<noteq> Some (date (clock e (ticks w)))"
  shows "check_rate_limit e cid w =
           (0 < daily_message_limit cl,
            commit_client e cl
              (cl\<lparr>messages_sent_today := 0, last_reset_date := Some (clock e (Suc (ticks w)))\<rparr>)
              (w\<lparr>ticks := Suc (Suc (ticks w))\<rparr>))"
  using assms by (cases "last_reset_date cl") (simp_all add: check_rate_limit_def utcnow_def)

lemma check_keeps_log:
  "messages (snd (check_rate_limit e cid w)) = messages w
   \<and> api_calls (snd (check_rate_limit e cid w)) = api_calls w
   \<and> webhooks (snd (check_rate_limit e cid w)) = webhooks w"
  by (simp add: check_rate_limit_def utcnow_def commit_keeps_log Let_def split: option.splits)

lemma increment_existing:
  assumes "get_client cid w = Some cl"
  shows "get_client cid (increment_message_count e cid w)
           = Some (cl\<lparr>messages_sent_today := messages_sent_today cl + 1,
                       updated_at := Some (clock e (ticks w))\<rparr>)"
proof -
  have "messages_sent_today (cl\<lparr>messages_sent_today := messages_sent_today cl + 1\<rparr>)
          \<noteq> messages_sent_today cl"
    by simp
  then have ne: "cl\<lparr>messages_sent_today := messages_sent_today cl + 1\<rparr> \<noteq> cl"
    by metis
  have "c_id (cl\<lparr>messages_sent_today := messages_sent_today cl + 1\<rparr>) = cid"
    using get_client_id [OF assms] by simp
  from get_client_commit [OF assms this ne, of e]
  show ?thesis using assms by (simp add: increment_message_count_def)
qed

lemma increment_keeps_log:
  "messages (increment_message_count e cid w) = messages w
   \<and> api_calls (increment_message_count e cid w) = api_calls w
   \<and> webhooks (increment_message_count e cid w) = webhooks w"
  by (simp add: increment_message_count_def commit_keeps_log split: option.splits)

section \<open>Quota Tracker\<close>



text \<open>
  C2, as the claim states it, fails for the increment: with the last reset on
  day 10 and five messages counted, an increment on day 11 leaves the counter at
  six and \<open>last_reset_date\<close> on day 10.
\<close>

theorem day_rollover_increment_counterexample:
  "map_option date (last_reset_date (stale_tenant True)) = Some 10
   \<and> date (clock (day_env 11 (Inr JNull)) 0) = 11
   \<and> messages_sent_today (stale_tenant True) = 5
   \<and> map_option messages_sent_today
        (get_client 1 (increment_message_count (day_env 11 (Inr JNull)) 1
           (directory [stale_tenant True] []))) = Some 6
   \<and> map_option last_reset_date
        (get_client 1 (increment_message_count (day_env 11 (Inr JNull)) 1
           (directory [stale_tenant True] [])))
       = Some (Some (DateTime 10 0))"
  by (simp add: quota_defs example_defs stale_tenant_def)

text \<open>
  C2, amended. For a tenant whose \<open>last_reset_date\<close> falls on an earlier day than
  today and whose counter is N > 0, a check resets \<open>messages_sent_today\<close> to 0 and
  sets \<open>last_reset_date\<close> to the clock reading it takes; an increment after that
  check gives 1. An increment alone performs no reset: it adds 1 to the counter
  and leaves \<open>last_reset_date\<close> as it was. Each UPDATE stamps \<open>updated_at\<close>; no
  other column of the row changes.
\<close>

theorem day_rollover_check_resets:
  assumes "get_client cid w = Some cl"
    and "last_reset_date cl = Some d"
    and "date d < date (clock e (ticks w))"
    and "0 < messages_sent_today cl"
  shows "get_client cid (snd (check_rate_limit e cid w))
           = Some (cl\<lparr>messages_sent_today := 0,
                       last_reset_date := Some (clock e (Suc (ticks w))),
                       updated_at := Some (clock e (Suc (Suc (ticks w))))\<rparr>)
       \<and> get_client cid (increment_message_count e cid (snd (check_rate_limit e cid w)))
           = Some (cl\<lparr>messages_sent_today := 1,
                       last_reset_date := Some (clock e (Suc (ticks w))),
                       updated_at := Some (clock e (Suc (Suc (Suc (ticks w)))))\<rparr>)
       \<and> get_client cid (increment_message_count e cid w)
           = Some (cl\<lparr>messages_sent_today := messages_sent_today cl + 1,
                       updated_at := Some (clock e (ticks w))\<rparr>)"
proof -
  let ?new = "cl\<lparr>messages_sent_today := 0, last_reset_date := Some (clock e (Suc (ticks w)))\<rparr>"
  let ?w2 = "w\<lparr>ticks := Suc (Suc (ticks w))\<rparr>"
  have day: "map_option date (last_reset_date cl) \<noteq> Some (date (clock e (ticks w)))"
    using assms(2,3) by simp
  have "messages_sent_today ?new \<noteq> messages_sent_today cl"
    using assms(4) by simp
  then have ne: "?new \<noteq> cl"
    by metis
  have g: "get_client cid ?w2 = Some cl"
    using assms(1) by (simp add: get_client_ticks)
  have id: "c_id ?new = cid"
    using get_client_id [OF assms(1)] by simp
  have w3: "snd (check_rate_limit e cid w) = commit_client e cl ?new ?w2"
    by (simp add: check_new_day [OF assms(1) day])
  have chk: "get_client cid (snd (check_rate_limit e cid w))
           = Some (cl\<lparr>messages_sent_today := 0,
                       last_reset_date := Some (clock e (Suc (ticks w))),
                       updated_at := Some (clock e (Suc (Suc (ticks w))))\<rparr>)"
    using get_client_commit [OF g id ne, of e] by (simp add: w3)
  have tk: "ticks (snd (check_rate_limit e cid w)) = Suc (Suc (Suc (ticks w)))"
    by (simp add: w3 commit_changed [OF ne] store_client_def)
  have "get_client cid (increment_message_count e cid (snd (check_rate_limit e cid w)))
           = Some (cl\<lparr>messages_sent_today := 1,
                       last_reset_date := Some (clock e (Suc (ticks w))),
                       updated_at := Some (clock e (Suc (Suc (Suc (ticks w)))))\<rparr>)"
    using increment_existing [OF chk, of e] by (simp add: tk)
  moreover note chk increment_existing [OF assms(1), of e]
  ultimately show ?thesis by simp
qed

theorem day_rollover_check_resets_witness:
  "get_client 1 (directory [stale_tenant True] []) = Some (stale_tenant True)
   \<and> last_reset_date (stale_tenant True) = Some (DateTime 10 0)
   \<and> date (DateTime 10 0) < date (clock (day_env 11 (Inr JNull)) 0)
   \<and> 0 < messages_sent_today (stale_tenant True)
   \<and> get_client 1 (snd (check_rate_limit (day_env 11 (Inr JNull)) 1
         (directory [stale_tenant True] [])))
       = Some ((stale_tenant True)\<lparr>messages_sent_today := 0,
                 last_reset_date := Some (DateTime 11 1), updated_at := Some (DateTime 11 2)\<rparr>)
   \<and> get_client 1 (increment_message_count (day_env 11 (Inr JNull)) 1
         (snd (check_rate_limit (day_env 11 (Inr JNull)) 1 (directory [stale_tenant True] []))))
       = Some ((stale_tenant True)\<lparr>messages_sent_today := 1,
                 last_reset_date := Some (DateTime 11 1), updated_at := Some (DateTime 11 3)\<rparr>)
   \<and> get_client 1 (increment_message_count (day_env 11 (Inr JNull)) 1
         (directory [stale_tenant True] []))
       = Some ((stale_tenant True)\<lparr>messages_sent_today := 6, updated_at := Some (DateTime 11 0)\<rparr>)"
proof -
  let ?w = "directory [stale_tenant True] []"
  let ?e = "day_env 11 (Inr JNull)"
  have g: "get_client 1 ?w = Some (stale_tenant True)"
    by (simp add: quota_defs example_defs stale_tenant_def)
  have r: "last_reset_date (stale_tenant True) = Some (DateTime 10 0)"
    by (simp add: example_defs stale_tenant_def)
  have lt: "date (DateTime 10 0) < date (clock ?e (ticks ?w))"
    by (simp add: example_defs)
  have n: "0 < messages_sent_today (stale_tenant True)"
    by (simp add: example_defs stale_tenant_def)
  have v: "clock ?e (ticks ?w) = DateTime 11 0" "clock ?e (Suc (ticks ?w)) = DateTime 11 1"
    "clock ?e (Suc (Suc (ticks ?w))) = DateTime 11 2"
    "clock ?e (Suc (Suc (Suc (ticks ?w)))) = DateTime 11 3"
    "messages_sent_today (stale_tenant True) + 1 = 6"
    by (simp_all add: example_defs stale_tenant_def)
  show ?thesis
    using day_rollover_check_resets [OF g r lt n] g r n
    unfolding v by (simp add: example_defs)
qed

section \<open>Tenant resolution\<close>

lemma resolve_exact:
  "get_client_by_verify_token tok w = Some t \<Longrightarrow> t \<in> set (clients w) \<and> verify_token t = tok"
  by (auto simp: get_client_by_verify_token_def find_Some_iff)

text \<open>Where the stored tokens are pairwise distinct, the lookup is exact and unambiguous.\<close>

lemma resolve_unique:
  assumes "distinct (map verify_token (clients w))" and "t \<in> set (clients w)"
  shows "(get_client_by_verify_token tok w = Some t) = (tok = verify_token t)"
proof
  assume "get_client_by_verify_token tok w = Some t"
  then show "tok = verify_token t" using resolve_exact by blast
next
  assume tok: "tok = verify_token t"
  then obtain u where u: "get_client_by_verify_token tok w = Some u"
    using assms(2) by (cases "get_client_by_verify_token tok w")
      (auto simp: get_client_by_verify_token_def find_None_iff)
  then have "u \<in> set (clients w)" "verify_token u = verify_token t"
    using resolve_exact tok by blast+
  then have "u = t"
    using assms by (meson distinct_map inj_onD)
  with u show "get_client_by_verify_token tok w = Some t" by simp
qed

text \<open>
  C6. Nothing keeps the stored tokens distinct: the column is not declared unique
  and \<open>update_client\<close> writes any value. After tenant 2 is given the token of
  tenant 1, the supplied token equals tenant 2's stored token, yet the lookup
  returns tenant 1.
\<close>

theorem shared_verify_token_resolves_first_tenant:
  "map_option verify_token (get_client 1 two_tenants) = Some ''verify-1''
   \<and> map_option verify_token
        (get_client 2 (snd (update_client (day_env 11 (Inr JNull)) 2
                              [Set_verify_token ''verify-1''] two_tenants)))
       = Some ''verify-1''
   \<and> map_option c_id
        (get_client_by_verify_token ''verify-1''
           (snd (update_client (day_env 11 (Inr JNull)) 2
                   [Set_verify_token ''verify-1''] two_tenants)))
       = Some 1"
  by (simp add: quota_defs example_defs fresh_tenant_def get_client_by_verify_token_def
        update_client_def two_tenants_def)

section \<open>Event Router\<close>

text \<open>
  C9. A messaging event whose \<^verbatim>\<open>message\<close> carries the key \<^verbatim>\<open>is_echo\<close> leaves the
  world exactly as it found it: no Message Record, no adapter call, and not even
  the quota check of a policy handler.
\<close>

theorem echo_event_is_dropped:
  assumes "py_subscript event ''message'' = Inr msg"
    and "py_in ''is_echo'' msg = Inr True"
  shows "snd (process_messaging_event e event cl w) = w
       \<and> messages (snd (process_messaging_event e event cl w)) = messages w
       \<and> api_calls (snd (process_messaging_event e event cl w)) = api_calls w"
proof -
  obtain kvs where ev: "event = JObj kvs"
    using assms(1) by (cases event) simp_all
  have m: "map_of kvs ''message'' = Some msg"
    using assms(1) ev by (simp split: option.splits)
  then have has: "''message'' \<in> fst ` set kvs"
    by (metis map_of_eq_None_iff option.distinct(1))
  have "snd (process_messaging_event e event cl w) = w"
    using assms(2) m has
    by (simp add: process_messaging_event_def or_raise_def ev split: sum.splits)
  then show ?thesis by simp
qed

text \<open>The same tenant answers the event once the \<^verbatim>\<open>is_echo\<close> key is absent.\<close>

theorem echo_event_is_dropped_witness:
  "py_subscript echo_event ''message'' = Inr (JObj [(''is_echo'', JBool True), (''text'', JStr ''oi'')])
   \<and> py_in ''is_echo'' (JObj [(''is_echo'', JBool True), (''text'', JStr ''oi'')]) = Inr True
   \<and> snd (process_messaging_event (day_env 11 (Inr (JBool True))) echo_event (fresh_tenant True)
            (directory [fresh_tenant True] []))
       = directory [fresh_tenant True] []
   \<and> length (api_calls (snd (process_messaging_event (day_env 11 (Inr (JBool True))) (dm_event ''oi'')
            (fresh_tenant True) (directory [fresh_tenant True] [])))) = 1"
proof -
  have s: "py_subscript echo_event ''message''
             = Inr (JObj [(''is_echo'', JBool True), (''text'', JStr ''oi'')])"
    by (simp add: echo_event_def)
  have i: "py_in ''is_echo'' (JObj [(''is_echo'', JBool True), (''text'', JStr ''oi'')]) = Inr True"
    by simp
  have d: "length (api_calls (snd (process_messaging_event (day_env 11 (Inr (JBool True)))
            (dm_event ''oi'') (fresh_tenant True) (directory [fresh_tenant True] [])))) = 1"
    by (simp add: quota_defs example_defs fresh_tenant_def process_message_def
          select_response_def log_message_def make_request_def api_send_message_def
          any_word_in_def get_default_response_def py_lower_def or_raise_def
          process_messaging_event_def dm_event_def)
  show ?thesis
    using echo_event_is_dropped [OF s i] s i d by simp
qed

section \<open>Policy Engine\<close>

text \<open>
  C3. \<open>process_mention\<close> tests the auto-reply flag only. For a tenant that has
  reached its limit of three today the quota check answers false, yet a story
  mention is answered: one request is issued, one Message Record is written and
  the counter moves to four.
\<close>

theorem story_mention_ignores_quota:
  "fst (check_rate_limit (day_env 11 (Inr (JObj [(''message_id'', JStr ''m1'')]))) 1
          (directory [spent_tenant] [])) = False
   \<and> fst (process_messaging_event (day_env 11 (Inr (JObj [(''message_id'', JStr ''m1'')])))
             story_event spent_tenant (directory [spent_tenant] [])) = Inr ()
   \<and> length (api_calls (snd (process_messaging_event
             (day_env 11 (Inr (JObj [(''message_id'', JStr ''m1'')])))
             story_event spent_tenant (directory [spent_tenant] [])))) = 1
   \<and> map message_type
        (messages (snd (process_messaging_event
             (day_env 11 (Inr (JObj [(''message_id'', JStr ''m1'')])))
             story_event spent_tenant (directory [spent_tenant] [])))) = [''story_mention'']
   \<and> map sent
        (messages (snd (process_messaging_event
             (day_env 11 (Inr (JObj [(''message_id'', JStr ''m1'')])))
             story_event spent_tenant (directory [spent_tenant] [])))) = [True]
   \<and> map messages_sent_today
        (clients (snd (process_messaging_event
             (day_env 11 (Inr (JObj [(''message_id'', JStr ''m1'')])))
             story_event spent_tenant (directory [spent_tenant] [])))) = [4]"
  by (simp add: quota_defs example_defs spent_tenant_def process_mention_def log_message_def
        make_request_def api_send_message_def or_raise_def process_messaging_event_def
        story_event_def)

text \<open>
  C7, as the claim states it, fails on the first event of a new day: the quota
  check runs before the auto-reply test, so the disabled tenant's counter goes
  from five to zero and its \<open>last_reset_date\<close> moves to day 11.
\<close>

theorem auto_reply_disabled_counterexample:
  "\<not> auto_reply_enabled (stale_tenant False)
   \<and> clients (directory [stale_tenant False] []) = [stale_tenant False]
   \<and> messages_sent_today (stale_tenant False) = 5
   \<and> last_reset_date (stale_tenant False) = Some (DateTime 10 0)
   \<and> map messages_sent_today
         (clients (snd (process_message (day_env 11 (Inr JNull)) (stale_tenant False)
            (JStr ''user-7'') (JStr ''oi'') (directory [stale_tenant False] [])))) = [0]
   \<and> map last_reset_date
         (clients (snd (process_message (day_env 11 (Inr JNull)) (stale_tenant False)
            (JStr ''user-7'') (JStr ''oi'') (directory [stale_tenant False] []))))
       = [Some (DateTime 11 1)]"
  by (simp add: quota_defs example_defs stale_tenant_def process_message_def)

text \<open>
  C7, amended. With auto-reply disabled, a direct message or a comment ends
  normally after the quota check and does nothing else: no Message Record and no
  adapter call. The tenant rows are unchanged when \<open>last_reset_date\<close> is on
  today's date; otherwise only the day-rollover reset of the check is applied.
\<close>

theorem auto_reply_disabled_does_nothing:
  assumes "\<not> auto_reply_enabled cl"
  shows "process_message e cl sender_id msg_text w = (Inr (), snd (check_rate_limit e (c_id cl) w))
       \<and> process_comment e cl comment_id comment_text username w
           = (Inr (), snd (check_rate_limit e (c_id cl) w))
       \<and> messages (snd (check_rate_limit e (c_id cl) w)) = messages w
       \<and> api_calls (snd (check_rate_limit e (c_id cl) w)) = api_calls w
       \<and> (\<forall>row. get_client (c_id cl) w = Some row
              \<and> map_option date (last_reset_date row) = Some (date (clock e (ticks w)))
            \<longrightarrow> clients (snd (check_rate_limit e (c_id cl) w)) = clients w)"
proof (intro conjI allI impI)
  show "process_message e cl sender_id msg_text w = (Inr (), snd (check_rate_limit e (c_id cl) w))"
    using assms by (simp add: process_message_def split: prod.splits)
  show "process_comment e cl comment_id comment_text username w
           = (Inr (), snd (check_rate_limit e (c_id cl) w))"
    using assms by (simp add: process_comment_def split: prod.splits)
  show "messages (snd (check_rate_limit e (c_id cl) w)) = messages w"
    by (simp add: check_keeps_log)
  show "api_calls (snd (check_rate_limit e (c_id cl) w)) = api_calls w"
    by (simp add: check_keeps_log)
next
  fix row
  assume "get_client (c_id cl) w = Some row
           \<and> map_option date (last_reset_date row) = Some (date (clock e (ticks w)))"
  then show "clients (snd (check_rate_limit e (c_id cl) w)) = clients w"
    by (simp add: check_same_day)
qed

theorem auto_reply_disabled_does_nothing_witness:
  "\<not> auto_reply_enabled (fresh_tenant False)
   \<and> process_message (day_env 11 (Inr (JBool True))) (fresh_tenant False) (JStr ''user-7'')
        (JStr ''oi'') (directory [fresh_tenant False] [])
       = (Inr (), (directory [fresh_tenant False] [])\<lparr>ticks := 1\<rparr>)
   \<and> process_comment (day_env 11 (Inr (JBool True))) (fresh_tenant False) (JStr ''c-1'')
        (JStr ''promo?'') (JStr ''ana'') (directory [fresh_tenant False] [])
       = (Inr (), (directory [fresh_tenant False] [])\<lparr>ticks := 1\<rparr>)
   \<and> get_client 1 (directory [fresh_tenant False] []) = Some (fresh_tenant False)
   \<and> map_option date (last_reset_date (fresh_tenant False))
       = Some (date (clock (day_env 11 (Inr (JBool True))) 0))
   \<and> clients (snd (check_rate_limit (day_env 11 (Inr (JBool True))) 1
                  (directory [fresh_tenant False] [])))
       = clients (directory [fresh_tenant False] [])"
proof -
  let ?w = "directory [fresh_tenant False] []"
  let ?e = "day_env 11 (Inr (JBool True))"
  have off: "\<not> auto_reply_enabled (fresh_tenant False)"
    by (simp add: quota_defs example_defs fresh_tenant_def)
  have row: "get_client (c_id (fresh_tenant False)) ?w = Some (fresh_tenant False)
             \<and> map_option date (last_reset_date (fresh_tenant False))
                 = Some (date (clock ?e (ticks ?w)))"
    by (simp add: quota_defs example_defs fresh_tenant_def)
  have chk: "snd (check_rate_limit ?e 1 ?w) = ?w\<lparr>ticks := 1\<rparr>"
    by (simp add: quota_defs example_defs fresh_tenant_def)
  have cid: "c_id (fresh_tenant False) = 1" "ticks ?w = 0"
    by (simp_all add: quota_defs example_defs fresh_tenant_def)
  show ?thesis
    using auto_reply_disabled_does_nothing [OF off, of ?e "JStr ''user-7''" "JStr ''oi''" ?w
            "JStr ''c-1''" "JStr ''promo?''" "JStr ''ana''"] off row chk cid
    by simp
qed

section \<open>What a handler sends and records\<close>

lemma log_message_stored:
  assumes "recipient \<noteq> JNull"
  shows "log_message e cid recipient mtype text media snt err w
           = (Inr \<lparr>m_client_id = cid, recipient_id = recipient, message_type = mtype,
                    message_text = text, media_url = media, sent = snt, m_error = err\<rparr>,
              (if snt then increment_message_count e cid else id)
                (w\<lparr>messages := messages w @
                      [\<lparr>m_client_id = cid, recipient_id = recipient, message_type = mtype,
                        message_text = text, media_url = media, sent = snt, m_error = err\<rparr>]\<rparr>))"
  using assms by (simp add: log_message_def Let_def)

lemma log_message_refused:
  "log_message e cid JNull mtype text media snt err w
     = (Inl (IntegrityError ''NOT NULL constraint failed: messages.recipient_id''), w)"
  by (simp add: log_message_def Let_def)

lemma log_message_keeps_calls:
  "api_calls (snd (log_message e cid recipient mtype text media snt err w)) = api_calls w"
  by (cases "recipient = JNull") (simp_all add: log_message_stored log_message_refused
        increment_keeps_log)

lemma except_keeps_calls:
  "api_calls (snd (process_message_except e cl sender_id response err w)) = api_calls w"
proof -
  have "snd (process_message_except e cl sender_id response err w)
          = snd (log_message e (c_id cl) sender_id ''dm'' (JStr response) None False (Some (str_exn err)) w)"
    by (simp add: process_message_except_def split: prod.splits sum.splits)
  then show ?thesis by (simp add: log_message_keeps_calls)
qed

lemma gate_open:
  assumes "check_rate_limit e (c_id cl) w = (True, w1)" and "auto_reply_enabled cl"
  shows "process_message e cl sender_id (JStr t) w =
           (case api_send_message e cl sender_id (JStr (select_response e cl (lower e t))) w1 of
              (Inl err, w2) \<Rightarrow> process_message_except e cl sender_id (select_response e cl (lower e t)) err w2
            | (Inr result, w2) \<Rightarrow>
                (case log_message e (c_id cl) sender_id ''dm'' (JStr (select_response e cl (lower e t))) None
                        (truthy result) None w2 of
                   (Inl err, w3) \<Rightarrow>
                     process_message_except e cl sender_id (select_response e cl (lower e t)) err w3
                 | (Inr m, w3) \<Rightarrow> (Inr (), w3)))"
  using assms by (simp add: process_message_def py_lower_def Let_def)

lemma send_outcome:
  "api_send_message e cl recipient text w
     = (api_reply e (length (api_calls w)),
        w\<lparr>api_calls := api_calls w @
             [Send_message (instagram_account_id cl) (access_token cl) recipient text]\<rparr>)"
  by (simp add: api_send_message_def make_request_def)

lemma process_message_request:
  assumes "check_rate_limit e (c_id cl) w = (True, w1)" and "auto_reply_enabled cl"
  shows "api_calls (snd (process_message e cl sender_id (JStr t) w))
           = api_calls w @ [Send_message (instagram_account_id cl) (access_token cl) sender_id
                              (JStr (select_response e cl (lower e t)))]"
proof -
  let ?r = "select_response e cl (lower e t)"
  let ?w2 = "w1\<lparr>api_calls := api_calls w1 @
               [Send_message (instagram_account_id cl) (access_token cl) sender_id (JStr ?r)]\<rparr>"
  have c: "api_calls w1 = api_calls w"
    using check_keeps_log [of e "c_id cl" w] assms(1) by simp
  show ?thesis
  proof (cases "api_reply e (length (api_calls w1))")
    case (Inl err)
    then have "process_message e cl sender_id (JStr t) w = process_message_except e cl sender_id ?r err ?w2"
      by (simp add: gate_open [OF assms] send_outcome)
    then show ?thesis by (simp add: except_keeps_calls c)
  next
    case (Inr result)
    let ?l = "log_message e (c_id cl) sender_id ''dm'' (JStr ?r) None (truthy result) None ?w2"
    have pm: "process_message e cl sender_id (JStr t) w =
            (case ?l of (Inl err, w3) \<Rightarrow> process_message_except e cl sender_id ?r err w3
                      | (Inr m, w3) \<Rightarrow> (Inr (), w3))"
      using Inr by (simp add: gate_open [OF assms] send_outcome)
    have l: "api_calls (snd ?l) = api_calls ?w2" by (rule log_message_keeps_calls)
    show ?thesis
    proof (cases ?l)
      case (Pair a w3)
      then have w3: "api_calls w3 = api_calls ?w2" using l by simp
      show ?thesis
        using Pair w3 by (cases a) (simp_all add: pm except_keeps_calls c)
    qed
  qed
qed

lemma reply_outcome:
  "reply_to_comment e cl comment_id text w
     = (api_reply e (length (api_calls w)),
        w\<lparr>api_calls := api_calls w @ [Reply_to_comment (access_token cl) comment_id text]\<rparr>)"
  by (simp add: reply_to_comment_def make_request_def)

lemma mention_returned:
  assumes "auto_reply_enabled cl" and "recipient \<noteq> JNull"
    and "api_reply e (length (api_calls w)) = Inr result"
  shows "fst (process_mention e cl recipient media_id w) = Inr ()
       \<and> messages (snd (process_mention e cl recipient media_id w))
           = messages w @ [\<lparr>m_client_id = c_id cl, recipient_id = recipient,
                message_type = ''story_mention'',
                message_text = JStr (''Obrigado por compartilhar! ''
                  @ [CHR 0xF0, CHR 0x9F, CHR 0x99, CHR 0x8F, CHR 0xE2, CHR 0x9C, CHR 0xA8]),
                media_url = None, sent = truthy result, m_error = None\<rparr>]"
  using assms
  by (simp add: process_mention_def Let_def send_outcome log_message_stored increment_keeps_log)

lemma message_returned:
  assumes "check_rate_limit e (c_id cl) w = (True, w1)"
    and "auto_reply_enabled cl" and "recipient \<noteq> JNull"
    and "api_reply e (length (api_calls w)) = Inr result"
  shows "fst (process_message e cl recipient (JStr t) w) = Inr ()
       \<and> messages (snd (process_message e cl recipient (JStr t) w))
           = messages w @ [\<lparr>m_client_id = c_id cl, recipient_id = recipient, message_type = ''dm'',
                message_text = JStr (select_response e cl (lower e t)),
                media_url = None, sent = truthy result, m_error = None\<rparr>]"
proof -
  have c: "api_calls w1 = api_calls w" "messages w1 = messages w"
    using check_keeps_log [of e "c_id cl" w] assms(1) by simp_all
  show ?thesis
    using assms(3,4)
    by (simp add: gate_open [OF assms(1,2)] send_outcome c log_message_stored increment_keeps_log)
qed

lemma message_raised:
  assumes "check_rate_limit e (c_id cl) w = (True, w1)"
    and "auto_reply_enabled cl" and "recipient \<noteq> JNull"
    and "api_reply e (length (api_calls w)) = Inl err"
  shows "fst (process_message e cl recipient (JStr t) w) = Inr ()
       \<and> messages (snd (process_message e cl recipient (JStr t) w))
           = messages w @ [\<lparr>m_client_id = c_id cl, recipient_id = recipient, message_type = ''dm'',
                message_text = JStr (select_response e cl (lower e t)),
                media_url = None, sent = False, m_error = Some (str_exn err)\<rparr>]"
proof -
  have c: "api_calls w1 = api_calls w" "messages w1 = messages w"
    using check_keeps_log [of e "c_id cl" w] assms(1) by simp_all
  show ?thesis
    using assms(3,4)
    by (simp add: gate_open [OF assms(1,2)] send_outcome c process_message_except_def
          log_message_stored)
qed

lemma comment_returned:
  assumes "check_rate_limit e (c_id cl) w = (True, w1)"
    and "auto_reply_enabled cl" and "username \<noteq> JNull"
    and "api_reply e (length (api_calls w)) = Inr result"
    and "list_ex (\<lambda>keyword. str_contains (lower e keyword) (lower e t))
           (case c_keywords cl of None \<Rightarrow> [] | Some ks \<Rightarrow> ks)"
  shows "fst (process_comment e cl comment_id (JStr t) username w) = Inr ()
       \<and> messages (snd (process_comment e cl comment_id (JStr t) username w))
           = messages w @ [\<lparr>m_client_id = c_id cl, recipient_id = username,
                message_type = ''comment'',
                message_text = JStr (generate_comment_response (lower e t) username),
                media_url = None, sent = truthy result, m_error = None\<rparr>]"
proof -
  have c: "api_calls w1 = api_calls w" "messages w1 = messages w"
    using check_keeps_log [of e "c_id cl" w] assms(1) by simp_all
  show ?thesis
    using assms(2-5)
    by (simp add: process_comment_def py_lower_def assms(1) Let_def reply_outcome c
          log_message_stored increment_keeps_log)
qed

text \<open>
  C4, as the claim states it, fails twice. When the adapter hands back no result
  for a direct message, the one record written has \<open>sent\<close> false and no error
  text. When the adapter call raises in the comment handler, the request has
  been issued and no Message Record is written.
\<close>

theorem send_attempt_counterexample:
  "map sent
      (messages (snd (process_message (day_env 11 (Inr JNull)) (fresh_tenant True)
         (JStr ''user-7'') (JStr ''oi'') (directory [fresh_tenant True] [])))) = [False]
   \<and> map m_error
      (messages (snd (process_message (day_env 11 (Inr JNull)) (fresh_tenant True)
         (JStr ''user-7'') (JStr ''oi'') (directory [fresh_tenant True] [])))) = [None]
   \<and> length (api_calls (snd (process_comment (day_env 11 (Inl (AdapterError ''boom'')))
         (fresh_tenant True) (JStr ''c-1'') (JStr ''promo?'') (JStr ''ana'')
         (directory [fresh_tenant True] [])))) = 1
   \<and> messages (snd (process_comment (day_env 11 (Inl (AdapterError ''boom'')))
         (fresh_tenant True) (JStr ''c-1'') (JStr ''promo?'') (JStr ''ana'')
         (directory [fresh_tenant True] []))) = []"
  by (simp add: quota_defs example_defs fresh_tenant_def process_message_def select_response_def
        log_message_def make_request_def api_send_message_def any_word_in_def
        get_default_response_def py_lower_def process_comment_def
        reply_to_comment_def generate_comment_response_def py_str_def)

text \<open>
  C4, amended. For a tenant with auto-reply enabled and a recipient identifier
  that is a string: whenever the adapter call returns (a result or none), the story
  handler, the direct-message handler (quota permitting) and the comment handler
  (quota permitting, keyword matched) each end normally and append exactly one
  Message Record, with \<open>sent\<close> the truth value of the result and no error text.
  When the adapter call raises in the direct-message handler, the handler ends
  normally and appends exactly one record with \<open>sent\<close> false and the error text.
\<close>

theorem send_attempt_recorded:
  assumes "auto_reply_enabled cl"
  shows "(api_reply e (length (api_calls w)) = Inr result \<longrightarrow>
            fst (process_mention e cl (JStr rid) media_id w) = Inr ()
          \<and> messages (snd (process_mention e cl (JStr rid) media_id w))
              = messages w @ [\<lparr>m_client_id = c_id cl, recipient_id = JStr rid,
                   message_type = ''story_mention'',
                   message_text = JStr (''Obrigado por compartilhar! ''
                     @ [CHR 0xF0, CHR 0x9F, CHR 0x99, CHR 0x8F, CHR 0xE2, CHR 0x9C, CHR 0xA8]),
                   media_url = None, sent = truthy result, m_error = None\<rparr>]
          \<and> (fst (check_rate_limit e (c_id cl) w) \<longrightarrow>
               fst (process_message e cl (JStr rid) (JStr t) w) = Inr ()
             \<and> messages (snd (process_message e cl (JStr rid) (JStr t) w))
                 = messages w @ [\<lparr>m_client_id = c_id cl, recipient_id = JStr rid,
                      message_type = ''dm'', message_text = JStr (select_response e cl (lower e t)),
                      media_url = None, sent = truthy result, m_error = None\<rparr>]
             \<and> (list_ex (\<lambda>keyword. str_contains (lower e keyword) (lower e t))
                   (case c_keywords cl of None \<Rightarrow> [] | Some ks \<Rightarrow> ks) \<longrightarrow>
                  fst (process_comment e cl comment_id (JStr t) (JStr rid) w) = Inr ()
                \<and> messages (snd (process_comment e cl comment_id (JStr t) (JStr rid) w))
                    = messages w @ [\<lparr>m_client_id = c_id cl, recipient_id = JStr rid,
                         message_type = ''comment'',
                         message_text = JStr (generate_comment_response (lower e t) (JStr rid)),
                         media_url = None, sent = truthy result, m_error = None\<rparr>])))
       \<and> (api_reply e (length (api_calls w)) = Inl err \<and> fst (check_rate_limit e (c_id cl) w) \<longrightarrow>
            fst (process_message e cl (JStr rid) (JStr t) w) = Inr ()
          \<and> messages (snd (process_message e cl (JStr rid) (JStr t) w))
              = messages w @ [\<lparr>m_client_id = c_id cl, recipient_id = JStr rid,
                   message_type = ''dm'', message_text = JStr (select_response e cl (lower e t)),
                   media_url = None, sent = False, m_error = Some (str_exn err)\<rparr>])"
proof -
  have rcp: "JStr rid \<noteq> JNull"
    by simp
  have gate: "fst (check_rate_limit e (c_id cl) w)
      \<Longrightarrow> check_rate_limit e (c_id cl) w = (True, snd (check_rate_limit e (c_id cl) w))"
    by (cases "check_rate_limit e (c_id cl) w") simp
  show ?thesis
    using mention_returned [OF assms rcp, of e w result media_id]
      message_returned [OF gate assms rcp, of result t]
      comment_returned [OF gate assms rcp, of result t comment_id]
      message_raised [OF gate assms rcp, of err t]
    by blast
qed

theorem send_attempt_recorded_witness:
  "auto_reply_enabled accent_tenant
   \<and> fst (check_rate_limit (day_env 11 (Inr JNull)) 1 (directory [accent_tenant] []))
   \<and> c_keywords accent_tenant = Some [''pre'' @ [CHR 0xC3, CHR 0xA7] @ ''o'']
   \<and> lower (day_env 11 (Inr JNull)) price_question
       = ''qual o pre'' @ [CHR 0xC3, CHR 0xA7] @ ''o?''
   \<and> map (\<lambda>m. (message_type m, sent m, m_error m))
        (messages (snd (process_mention (day_env 11 (Inr JNull)) accent_tenant
           (JStr ''user-7'') (JStr ''media-9'') (directory [accent_tenant] []))))
       = [(''story_mention'', False, None)]
   \<and> map (\<lambda>m. (message_type m, sent m, m_error m))
        (messages (snd (process_message (day_env 11 (Inr JNull)) accent_tenant
           (JStr ''user-7'') (JStr price_question) (directory [accent_tenant] []))))
       = [(''dm'', False, None)]
   \<and> map (\<lambda>m. (message_type m, sent m, m_error m))
        (messages (snd (process_comment (day_env 11 (Inr JNull)) accent_tenant
           (JStr ''c-1'') (JStr price_question) (JStr ''user-7'') (directory [accent_tenant] []))))
       = [(''comment'', False, None)]
   \<and> map message_text
        (messages (snd (process_comment (day_env 11 (Inr JNull)) accent_tenant
           (JStr ''c-1'') (JStr price_question) (JStr ''user-7'') (directory [accent_tenant] []))))
       = [JStr (''@user-7 Oi! Enviamos os pre'' @ [CHR 0xC3, CHR 0xA7] @ ''os por DM! ''
                @ [CHR 0xF0, CHR 0x9F, CHR 0x93, CHR 0xA9])]
   \<and> map (\<lambda>m. (message_type m, sent m, m_error m))
        (messages (snd (process_message (day_env 11 (Inl (AdapterError ''boom''))) accent_tenant
           (JStr ''user-7'') (JStr price_question) (directory [accent_tenant] []))))
       = [(''dm'', False, Some ''boom'')]"
proof -
  let ?w = "directory [accent_tenant] []"
  let ?cl = "accent_tenant"
  let ?e = "day_env 11 (Inr JNull)"
  let ?x = "day_env 11 (Inl (AdapterError ''boom''))"
  have auto: "auto_reply_enabled ?cl" and id1: "c_id ?cl = 1"
    and ks: "c_keywords ?cl = Some [''pre'' @ [CHR 0xC3, CHR 0xA7] @ ''o'']"
    by (simp_all add: example_defs fresh_tenant_def accent_tenant_def)
  have ok: "fst (check_rate_limit (day_env 11 r) 1 ?w)" for r
    by (simp add: quota_defs example_defs fresh_tenant_def accent_tenant_def)
  have low: "lower (day_env 11 r) price_question = ''qual o pre'' @ [CHR 0xC3, CHR 0xA7] @ ''o?''"
    for r
    by (simp add: example_defs price_question_def)
  have kw: "list_ex (\<lambda>keyword. str_contains (lower ?e keyword) (lower ?e price_question))
              (case c_keywords ?cl of None \<Rightarrow> [] | Some ks \<Rightarrow> ks)"
    by (simp add: ks example_defs price_question_def)
  have reply: "generate_comment_response (lower ?e price_question) (JStr ''user-7'')
               = ''@user-7 Oi! Enviamos os pre'' @ [CHR 0xC3, CHR 0xA7] @ ''os por DM! ''
                 @ [CHR 0xF0, CHR 0x9F, CHR 0x93, CHR 0xA9]"
    by (simp add: low generate_comment_response_def any_word_in_def py_str_def)
  have r1: "api_reply ?e (length (api_calls ?w)) = Inr JNull"
    and r2: "api_reply ?x (length (api_calls ?w)) = Inl (AdapterError ''boom'')"
    and m: "messages ?w = []"
    by (simp_all add: example_defs)
  show ?thesis
    using send_attempt_recorded [OF auto, of ?e ?w JNull "''user-7''" "JStr ''media-9''"
            price_question "JStr ''c-1''" "AdapterError ''boom''"]
      send_attempt_recorded [OF auto, of ?x ?w JNull "''user-7''" "JStr ''media-9''"
            price_question "JStr ''c-1''" "AdapterError ''boom''"]
      auto ok kw ks low reply r1 r2 m id1
    by (simp add: example_defs price_question_def)
qed

section \<open>Response selection\<close>

lemma scan_first_match:
  assumes "\<forall>kr \<in> set pre. \<not> str_contains (lower e (fst kr)) txt"
    and "str_contains (lower e k) txt"
  shows "scan_custom_responses e (pre @ (k, r) # post) txt = Some r"
  using assms by (induction pre) auto

lemma scan_no_match:
  assumes "\<forall>kr \<in> set customs. \<not> str_contains (lower e (fst kr)) txt"
  shows "scan_custom_responses e customs txt = None"
  using assms by (induction customs) auto

text \<open>
  C8, as the claim states it, fails when the winning keyword maps to the empty
  text: \<^verbatim>\<open>promo\<close> matches, and the built-in catch-all text is sent.
\<close>

theorem custom_response_precedence_counterexample:
  "scan_custom_responses (day_env 11 (Inr (JBool True))) [(''promo'', [])]
      (lower (day_env 11 (Inr (JBool True))) ''ask about promo today'') = Some []
   \<and> api_calls (snd (process_message (day_env 11 (Inr (JBool True)))
        ((fresh_tenant True)\<lparr>custom_responses := Some [(''promo'', [])]\<rparr>)
        (JStr ''user-7'') (JStr ''ask about promo today'')
        (directory [(fresh_tenant True)\<lparr>custom_responses := Some [(''promo'', [])]\<rparr>] [])))
     = [Send_message ''account'' ''token'' (JStr ''user-7'')
          (JStr (''Obrigado pela sua mensagem! '' @ [CHR 0xF0, CHR 0x9F, CHR 0x99, CHR 0x82]
                 @ '' Em breve retornaremos.''))]"
  by (simp add: quota_defs example_defs fresh_tenant_def process_message_def select_response_def
        log_message_def make_request_def api_send_message_def any_word_in_def
        get_default_response_def py_lower_def)

text \<open>
  C8, amended. For a direct message that passes the quota and auto-reply gates,
  the custom responses are scanned in stored order and the first keyword whose
  lowercase form occurs in the lowercased text wins: its mapped text is sent
  verbatim when it is not empty, and the built-in category response is sent when
  it is empty. When no custom keyword matches, the built-in category response is
  sent.
\<close>

theorem custom_response_precedence:
  assumes "check_rate_limit e (c_id cl) w = (True, w1)"
    and "auto_reply_enabled cl"
  shows "((case custom_responses cl of None \<Rightarrow> [] | Some d \<Rightarrow> d) = pre @ (k, r) # post
          \<and> (\<forall>kr \<in> set pre. \<not> str_contains (lower e (fst kr)) (lower e t))
          \<and> str_contains (lower e k) (lower e t)
          \<longrightarrow> api_calls (snd (process_message e cl sender_id (JStr t) w))
                = api_calls w @ [Send_message (instagram_account_id cl) (access_token cl) sender_id
                                   (JStr (if r = [] then get_default_response (lower e t) else r))])
       \<and> ((\<forall>kr \<in> set (case custom_responses cl of None \<Rightarrow> [] | Some d \<Rightarrow> d).
               \<not> str_contains (lower e (fst kr)) (lower e t))
          \<longrightarrow> api_calls (snd (process_message e cl sender_id (JStr t) w))
                = api_calls w @ [Send_message (instagram_account_id cl) (access_token cl) sender_id
                                   (JStr (get_default_response (lower e t)))])"
proof (intro conjI impI)
  assume h: "(case custom_responses cl of None \<Rightarrow> [] | Some d \<Rightarrow> d) = pre @ (k, r) # post
          \<and> (\<forall>kr \<in> set pre. \<not> str_contains (lower e (fst kr)) (lower e t))
          \<and> str_contains (lower e k) (lower e t)"
  then have "scan_custom_responses e (case custom_responses cl of None \<Rightarrow> [] | Some d \<Rightarrow> d) (lower e t)
               = Some r"
    using scan_first_match by simp
  then have "select_response e cl (lower e t) = (if r = [] then get_default_response (lower e t) else r)"
    by (simp add: select_response_def)
  then show "api_calls (snd (process_message e cl sender_id (JStr t) w))
                = api_calls w @ [Send_message (instagram_account_id cl) (access_token cl) sender_id
                                   (JStr (if r = [] then get_default_response (lower e t) else r))]"
    using process_message_request [OF assms] by simp
next
  assume "\<forall>kr \<in> set (case custom_responses cl of None \<Rightarrow> [] | Some d \<Rightarrow> d).
               \<not> str_contains (lower e (fst kr)) (lower e t)"
  then have "scan_custom_responses e (case custom_responses cl of None \<Rightarrow> [] | Some d \<Rightarrow> d) (lower e t)
               = None"
    by (rule scan_no_match)
  then have "select_response e cl (lower e t) = get_default_response (lower e t)"
    by (simp add: select_response_def)
  then show "api_calls (snd (process_message e cl sender_id (JStr t) w))
                = api_calls w @ [Send_message (instagram_account_id cl) (access_token cl) sender_id
                                   (JStr (get_default_response (lower e t)))]"
    using process_message_request [OF assms] by simp
qed

theorem custom_response_precedence_witness:
  "check_rate_limit (day_env 11 (Inr (JBool True))) 1 (directory [fresh_tenant True] [])
     = (True, (directory [fresh_tenant True] [])\<lparr>ticks := 1\<rparr>)
   \<and> auto_reply_enabled (fresh_tenant True)
   \<and> custom_responses (fresh_tenant True) = Some [(''promo'', ''X'')]
   \<and> str_contains (lower_text ''promo'') (lower_text ''ask about promo today'')
   \<and> api_calls (snd (process_message (day_env 11 (Inr (JBool True))) (fresh_tenant True)
        (JStr ''user-7'') (JStr ''ask about promo today'') (directory [fresh_tenant True] [])))
       = [Send_message ''account'' ''token'' (JStr ''user-7'') (JStr ''X'')]
   \<and> \<not> str_contains (lower_text ''Sale'') (lower_text ''Any PROMO today?'')
   \<and> str_contains (lower_text ''Promo'') (lower_text ''Any PROMO today?'')
   \<and> api_calls (snd (process_message (day_env 11 (Inr (JBool True)))
        ((fresh_tenant True)\<lparr>custom_responses :=
           Some [(''Sale'', ''S''), (''Promo'', ''P''), (''today'', ''T'')]\<rparr>)
        (JStr ''user-7'') (JStr ''Any PROMO today?'')
        (directory [(fresh_tenant True)\<lparr>custom_responses :=
           Some [(''Sale'', ''S''), (''Promo'', ''P''), (''today'', ''T'')]\<rparr>] [])))
       = [Send_message ''account'' ''token'' (JStr ''user-7'') (JStr ''P'')]
   \<and> custom_responses accent_tenant
       = Some [(''promo'' @ [CHR 0xC3, CHR 0xA7, CHR 0xC3, CHR 0xA3] @ ''o'', ''X'')]
   \<and> api_calls (snd (process_message (day_env 11 (Inr (JBool True))) accent_tenant
        (JStr ''user-7'') (JStr promotion_today) (directory [accent_tenant] [])))
       = [Send_message ''account'' ''token'' (JStr ''user-7'') (JStr ''X'')]
   \<and> \<not> str_contains (lower_text ''promo'') (lower_text greeting_caps)
   \<and> api_calls (snd (process_message (day_env 11 (Inr (JBool True))) (fresh_tenant True)
        (JStr ''user-7'') (JStr greeting_caps) (directory [fresh_tenant True] [])))
       = [Send_message ''account'' ''token'' (JStr ''user-7'')
            (JStr (''Ol'' @ [CHR 0xC3, CHR 0xA1] @ ''! '' @ [CHR 0xF0, CHR 0x9F, CHR 0x91, CHR 0x8B]
                   @ '' Como posso ajudar voc'' @ [CHR 0xC3, CHR 0xAA] @ '' hoje?''))]"
proof -
  let ?w = "directory [fresh_tenant True] []"
  let ?cl = "fresh_tenant True"
  let ?cl3 = "(fresh_tenant True)\<lparr>custom_responses :=
                Some [(''Sale'', ''S''), (''Promo'', ''P''), (''today'', ''T'')]\<rparr>"
  let ?w3 = "directory [?cl3] []"
  let ?wa = "directory [accent_tenant] []"
  let ?e = "day_env 11 (Inr (JBool True))"
  have gate: "check_rate_limit ?e (c_id ?cl) ?w = (True, ?w\<lparr>ticks := 1\<rparr>)"
    and gate3: "check_rate_limit ?e (c_id ?cl3) ?w3 = (True, ?w3\<lparr>ticks := 1\<rparr>)"
    and gatea: "check_rate_limit ?e (c_id accent_tenant) ?wa = (True, ?wa\<lparr>ticks := 1\<rparr>)"
    by (simp_all add: quota_defs example_defs fresh_tenant_def accent_tenant_def)
  have auto: "auto_reply_enabled ?cl" and auto3: "auto_reply_enabled ?cl3"
    and autoa: "auto_reply_enabled accent_tenant"
    by (simp_all add: example_defs fresh_tenant_def accent_tenant_def)
  have cr: "custom_responses ?cl = Some [(''promo'', ''X'')]"
    and cra: "custom_responses accent_tenant
                = Some [(''promo'' @ [CHR 0xC3, CHR 0xA7, CHR 0xC3, CHR 0xA3] @ ''o'', ''X'')]"
    by (simp_all add: example_defs fresh_tenant_def accent_tenant_def)
  have lw: "lower ?e = lower_text"
    by (simp add: example_defs)
  have hit: "str_contains (lower_text ''promo'') (lower_text ''ask about promo today'')"
    and miss3: "\<not> str_contains (lower_text ''Sale'') (lower_text ''Any PROMO today?'')"
    and hit3: "str_contains (lower_text ''Promo'') (lower_text ''Any PROMO today?'')"
    and hita: "str_contains
                 (lower_text (''promo'' @ [CHR 0xC3, CHR 0xA7, CHR 0xC3, CHR 0xA3] @ ''o''))
                 (lower_text promotion_today)"
    and miss: "\<not> str_contains (lower_text ''promo'') (lower_text greeting_caps)"
    and low: "lower_text greeting_caps = ''ol'' @ [CHR 0xC3, CHR 0xA1]"
    by (simp_all add: example_defs promotion_today_def greeting_caps_def)
  have greet: "get_default_response (''ol'' @ [CHR 0xC3, CHR 0xA1])
                 = ''Ol'' @ [CHR 0xC3, CHR 0xA1] @ ''! '' @ [CHR 0xF0, CHR 0x9F, CHR 0x91, CHR 0x8B]
                   @ '' Como posso ajudar voc'' @ [CHR 0xC3, CHR 0xAA] @ '' hoje?''"
    by (simp add: get_default_response_def any_word_in_def)
  have fields: "c_id ?cl = 1" "instagram_account_id ?cl = ''account''" "access_token ?cl = ''token''"
    "instagram_account_id accent_tenant = ''account''" "access_token accent_tenant = ''token''"
    "api_calls ?w = []" "api_calls ?w3 = []" "api_calls ?wa = []"
    by (simp_all add: example_defs fresh_tenant_def accent_tenant_def)
  show ?thesis
    using custom_response_precedence [OF gate auto, of "[]" "''promo''" "''X''" "[]"
            "''ask about promo today''" "JStr ''user-7''"]
      custom_response_precedence [OF gate3 auto3, of "[(''Sale'', ''S'')]" "''Promo''" "''P''"
            "[(''today'', ''T'')]" "''Any PROMO today?''" "JStr ''user-7''"]
      custom_response_precedence [OF gatea autoa, of "[]"
            "''promo'' @ [CHR 0xC3, CHR 0xA7, CHR 0xC3, CHR 0xA3] @ ''o''" "''X''" "[]"
            promotion_today "JStr ''user-7''"]
      custom_response_precedence [OF gate auto, of "[]" "''promo''" "''X''" "[]"
            greeting_caps "JStr ''user-7''"]
      gate auto cr cra hit miss3 hit3 hita miss low greet fields
    by (simp add: lw)
qed

section \<open>Webhook delivery\<close>

lemma for_each_append:
  "for_each body (xs @ ys) w =
     (case for_each body xs w of
        (Inl err, w') \<Rightarrow> (Inl err, w')
      | (Inr u, w') \<Rightarrow> for_each body ys w')"
  by (induction xs arbitrary: w) (auto split: prod.splits sum.splits)

lemma for_each_stops:
  assumes "for_each body pre w = (Inr (), w1)" and "body bad w1 = (Inl err, w2)"
  shows "for_each body (pre @ bad # post) w = (Inl err, w2)"
  using assms by (simp add: for_each_append)

lemma process_entries_list:
  assumes "py_subscript data ''entry'' = Inr (JArr entries)"
  shows "process_entries e cl data w = for_each (process_entry e cl) entries w"
proof -
  obtain kvs where d: "data = JObj kvs"
    using assms by (cases data) simp_all
  have m: "map_of kvs ''entry'' = Some (JArr entries)"
    using assms d by (simp split: option.splits)
  then have "''entry'' \<in> fst ` set kvs"
    by (metis map_of_eq_None_iff option.distinct(1))
  then show ?thesis
    using m by (simp add: process_entries_def or_raise_def d)
qed

lemma webhook_receive_active:
  assumes "get_client_by_verify_token token w = Some cl" and "c_active cl"
  shows "webhook_receive e token data w =
           (case process_entries e cl data
                   (snd (log_webhook ''instagram_event'' data (Some (c_id cl)) w)) of
              (Inl err, w2) \<Rightarrow> ((JStr ''ERROR'', 500), w2)
            | (Inr u, w2) \<Rightarrow>
                ((JStr ''EVENT_RECEIVED'', 200),
                 mark_webhook_processed e
                   (w_id (fst (log_webhook ''instagram_event'' data (Some (c_id cl)) w))) None w2))"
  using assms by (simp add: webhook_receive_def case_prod_beta)

text \<open>No handler and no event function touches the webhook log.\<close>

lemma check_webhooks:
  "check_rate_limit e cid w = (ok, w') \<Longrightarrow> webhooks w' = webhooks w"
  using check_keeps_log [of e cid w] by simp

lemma log_message_webhooks:
  "log_message e cid recipient mtype text media snt err w = (r, w') \<Longrightarrow> webhooks w' = webhooks w"
  by (auto simp: log_message_def Let_def increment_keeps_log split: if_splits)

lemma send_webhooks:
  "api_send_message e cl recipient text w = (r, w') \<Longrightarrow> webhooks w' = webhooks w"
  by (auto simp: send_outcome)

lemma reply_webhooks:
  "reply_to_comment e cl comment_id text w = (r, w') \<Longrightarrow> webhooks w' = webhooks w"
  by (auto simp: reply_outcome)

lemma except_webhooks:
  "process_message_except e cl sender_id response err w = (r, w') \<Longrightarrow> webhooks w' = webhooks w"
  by (auto simp: process_message_except_def split: prod.splits sum.splits
        dest: log_message_webhooks)

lemma message_webhooks:
  "process_message e cl sender_id msg_text w = (r, w') \<Longrightarrow> webhooks w' = webhooks w"
  by (auto simp: process_message_def Let_def split: prod.splits sum.splits if_splits
        dest!: check_webhooks log_message_webhooks send_webhooks except_webhooks)

lemma comment_webhooks:
  "process_comment e cl comment_id comment_text username w = (r, w')
     \<Longrightarrow> webhooks w' = webhooks w"
  by (auto simp: process_comment_def Let_def split: prod.splits sum.splits if_splits
        dest!: check_webhooks log_message_webhooks reply_webhooks)

lemma mention_webhooks:
  "process_mention e cl sender_id media_id w = (r, w') \<Longrightarrow> webhooks w' = webhooks w"
  by (auto simp: process_mention_def Let_def split: prod.splits sum.splits if_splits
        dest!: log_message_webhooks send_webhooks)

lemma messaging_event_webhooks:
  "process_messaging_event e event cl w = (r, w') \<Longrightarrow> webhooks w' = webhooks w"
  by (auto simp: process_messaging_event_def or_raise_def split: sum.splits if_splits
        dest!: message_webhooks mention_webhooks)

lemma change_event_webhooks:
  "process_change_event e change cl w = (r, w') \<Longrightarrow> webhooks w' = webhooks w"
  by (auto simp: process_change_event_def or_raise_def split: sum.splits if_splits
        dest!: comment_webhooks)

lemma for_each_webhooks:
  assumes "\<And>x v r v'. body x v = (r, v') \<Longrightarrow> webhooks v' = webhooks v"
  shows "for_each body xs w = (r, w') \<Longrightarrow> webhooks w' = webhooks w"
proof (induction xs arbitrary: w)
  case Nil
  then show ?case by simp
next
  case (Cons x xs)
  obtain rx wx where b: "body x w = (rx, wx)"
    by (cases "body x w")
  then have wx: "webhooks wx = webhooks w"
    by (rule assms)
  show ?case
  proof (cases rx)
    case (Inl err)
    with Cons.prems b wx show ?thesis by simp
  next
    case (Inr u)
    with Cons.prems b have "for_each body xs wx = (r, w')" by simp
    then have "webhooks w' = webhooks wx" by (rule Cons.IH)
    with wx show ?thesis by simp
  qed
qed

lemma entry_webhooks:
  assumes "process_entry e cl entry w = (r, w')"
  shows "webhooks w' = webhooks w"
proof -
  let ?first = "or_raise (py_in ''messaging'' entry) w (\<lambda>has_messaging.
             if has_messaging
             then or_raise (py_subscript entry ''messaging'') w (\<lambda>messaging.
                  or_raise (py_iter messaging) w (\<lambda>events.
                    for_each (\<lambda>messaging_event. process_messaging_event e messaging_event cl)
                      events w))
             else (Inr (), w))"
  obtain r1 w1 where f: "?first = (r1, w1)"
    by (cases ?first)
  have w1: "webhooks w1 = webhooks w"
    using f
    by (auto simp: or_raise_def split: sum.splits if_splits
          dest!: for_each_webhooks [rotated, OF _ messaging_event_webhooks])
  show ?thesis
  proof (cases r1)
    case (Inl err)
    then show ?thesis
      using assms f w1 by (simp add: process_entry_def)
  next
    case (Inr u)
    then have "or_raise (py_in ''changes'' entry) w1 (\<lambda>has_changes.
            if has_changes
            then or_raise (py_subscript entry ''changes'') w1 (\<lambda>changes.
                 or_raise (py_iter changes) w1 (\<lambda>chs.
                   for_each (\<lambda>change. process_change_event e change cl) chs w1))
            else (Inr (), w1)) = (r, w')"
      using assms f by (simp add: process_entry_def)
    then have "webhooks w' = webhooks w1"
      by (auto simp: or_raise_def split: sum.splits if_splits
            dest!: for_each_webhooks [rotated, OF _ change_event_webhooks])
    with w1 show ?thesis by simp
  qed
qed

lemma for_each_entries_webhooks:
  assumes "for_each (process_entry e cl) xs w = (r, w')"
  shows "webhooks w' = webhooks w"
  using entry_webhooks assms by (rule for_each_webhooks)

text \<open>The record that \<open>log_webhook\<close> appends has a fresh id, so marking it changes no other.\<close>

lemma fold_max_ge: "y \<in> set (a # xs) \<Longrightarrow> y \<le> fold max xs (a::int)"
  by (metis List.finite_set Max.set_eq_fold Max_ge)

lemma log_webhook_appends:
  "webhooks (snd (log_webhook etype pl cid w)) = webhooks w @ [fst (log_webhook etype pl cid w)]
   \<and> w_id (fst (log_webhook etype pl cid w)) = fold max (map w_id (webhooks w)) 0 + 1
   \<and> \<not> processed (fst (log_webhook etype pl cid w))"
  by (simp add: log_webhook_def Let_def)

lemma mark_logged:
  assumes "webhooks v = hs @ [wh]" and "w_id wh = fold max (map w_id hs) 0 + 1"
  shows "webhooks (mark_webhook_processed e (w_id wh) None v)
           = hs @ [wh\<lparr>processed := True, processed_at := Some (clock e (ticks v))\<rparr>]"
proof -
  have old: "w_id h \<noteq> w_id wh" if "h \<in> set hs" for h
  proof -
    have "w_id h \<le> fold max (map w_id hs) 0"
      using that by (intro fold_max_ge) simp
    then show ?thesis using assms(2) by simp
  qed
  have "find (\<lambda>h. w_id h = w_id wh) (hs @ [wh]) = Some wh"
    using old by (induction hs) auto
  moreover have "map (\<lambda>h. if w_id h = w_id wh then f h else h) hs = hs" for f
    using old by (induction hs) auto
  ultimately show ?thesis
    using assms(1) by (simp add: mark_webhook_processed_def utcnow_def Let_def)
qed

text \<open>
  C1, as the claim states it, fails: a delivery whose first entry is a comment
  change without \<^verbatim>\<open>value\<close> answers \<^verbatim>\<open>ERROR\<close> with status 500, the direct
  message of its second entry is never answered and the webhook record stays
  unprocessed; the second entry alone is answered and acknowledged.
\<close>

theorem webhook_entry_isolation_counterexample:
  "fst (webhook_receive (day_env 11 (Inr (JBool True))) ''verify''
          (JObj [(''entry'', JArr [malformed_comment_entry, dm_entry])])
          (directory [fresh_tenant True] [])) = (JStr ''ERROR'', 500)
   \<and> api_calls (snd (webhook_receive (day_env 11 (Inr (JBool True))) ''verify''
          (JObj [(''entry'', JArr [malformed_comment_entry, dm_entry])])
          (directory [fresh_tenant True] []))) = []
   \<and> map processed (webhooks (snd (webhook_receive (day_env 11 (Inr (JBool True))) ''verify''
          (JObj [(''entry'', JArr [malformed_comment_entry, dm_entry])])
          (directory [fresh_tenant True] [])))) = [False]
   \<and> fst (webhook_receive (day_env 11 (Inr (JBool True))) ''verify''
          (JObj [(''entry'', JArr [dm_entry])])
          (directory [fresh_tenant True] [])) = (JStr ''EVENT_RECEIVED'', 200)
   \<and> length (api_calls (snd (webhook_receive (day_env 11 (Inr (JBool True))) ''verify''
          (JObj [(''entry'', JArr [dm_entry])])
          (directory [fresh_tenant True] [])))) = 1"
  by (simp add: quota_defs example_defs fresh_tenant_def process_message_def select_response_def
        log_message_def make_request_def api_send_message_def any_word_in_def
        get_default_response_def py_lower_def or_raise_def
        process_messaging_event_def process_change_event_def process_entry_def
        process_entries_def webhook_receive_def log_webhook_def mark_webhook_processed_def
        get_client_by_verify_token_def malformed_comment_entry_def dm_entry_def dm_event_def)

text \<open>
  C1, amended. For a delivery to an active tenant whose body holds an \<^verbatim>\<open>entry\<close>
  list, the entries are processed in order. An exception that leaves the
  processing of one entry ends the delivery with the world as that entry left
  it: the later entries are not processed, the webhook record stays as it was
  logged (not processed), and the response is \<^verbatim>\<open>ERROR\<close> with status 500. When
  no entry raises, all are processed, the webhook record is marked processed
  and the response is \<^verbatim>\<open>EVENT_RECEIVED\<close> with status 200.
\<close>

theorem webhook_entry_failure_aborts_delivery:
  assumes "get_client_by_verify_token token w = Some cl"
    and "c_active cl"
    and "py_subscript data ''entry'' = Inr (JArr entries)"
  shows "(entries = pre @ bad # post
          \<and> for_each (process_entry e cl) pre
               (snd (log_webhook ''instagram_event'' data (Some (c_id cl)) w)) = (Inr (), w1)
          \<and> process_entry e cl bad w1 = (Inl err, w2)
          \<longrightarrow> webhook_receive e token data w = ((JStr ''ERROR'', 500), w2)
            \<and> webhooks w2
                = webhooks w @ [fst (log_webhook ''instagram_event'' data (Some (c_id cl)) w)])
       \<and> (for_each (process_entry e cl) entries
             (snd (log_webhook ''instagram_event'' data (Some (c_id cl)) w)) = (Inr (), w3)
          \<longrightarrow> webhook_receive e token data w
                = ((JStr ''EVENT_RECEIVED'', 200),
                   mark_webhook_processed e
                     (w_id (fst (log_webhook ''instagram_event'' data (Some (c_id cl)) w))) None w3)
            \<and> webhooks (snd (webhook_receive e token data w))
                = webhooks w @
                    [(fst (log_webhook ''instagram_event'' data (Some (c_id cl)) w))
                       \<lparr>processed := True, processed_at := Some (clock e (ticks w3))\<rparr>])
       \<and> \<not> processed (fst (log_webhook ''instagram_event'' data (Some (c_id cl)) w))"
proof (intro conjI impI)
  let ?wh = "fst (log_webhook ''instagram_event'' data (Some (c_id cl)) w)"
  let ?w0 = "snd (log_webhook ''instagram_event'' data (Some (c_id cl)) w)"
  note lw = log_webhook_appends [of "''instagram_event''" data "Some (c_id cl)" w]
  show "\<not> processed ?wh"
    using lw by simp
  {
    assume h: "entries = pre @ bad # post
          \<and> for_each (process_entry e cl) pre ?w0 = (Inr (), w1)
          \<and> process_entry e cl bad w1 = (Inl err, w2)"
    then have "for_each (process_entry e cl) entries ?w0 = (Inl err, w2)"
      using for_each_stops by metis
    then show "webhook_receive e token data w = ((JStr ''ERROR'', 500), w2)"
      by (simp add: webhook_receive_active [OF assms(1,2)] process_entries_list [OF assms(3)])
    have "webhooks w1 = webhooks ?w0"
      using h for_each_entries_webhooks by blast
    moreover have "webhooks w2 = webhooks w1"
      using h entry_webhooks by blast
    ultimately show "webhooks w2 = webhooks w @ [?wh]"
      using lw by simp
  }
  {
    assume ok: "for_each (process_entry e cl) entries ?w0 = (Inr (), w3)"
    then show recv: "webhook_receive e token data w
                = ((JStr ''EVENT_RECEIVED'', 200), mark_webhook_processed e (w_id ?wh) None w3)"
      by (simp add: webhook_receive_active [OF assms(1,2)] process_entries_list [OF assms(3)])
    have "webhooks w3 = webhooks ?w0"
      using ok for_each_entries_webhooks by blast
    then have "webhooks w3 = webhooks w @ [?wh]"
      using lw by simp
    from mark_logged [OF this, of e] lw
    show "webhooks (snd (webhook_receive e token data w))
            = webhooks w @ [?wh\<lparr>processed := True, processed_at := Some (clock e (ticks w3))\<rparr>]"
      by (simp add: recv)
  }
qed

text \<open>
  The failing delivery of the counterexample, and a delivery of two direct
  messages whose adapter calls both raise: the handler records each failure,
  both entries are processed and the delivery is acknowledged.
\<close>

theorem webhook_entry_failure_aborts_delivery_witness:
  "get_client_by_verify_token ''verify'' (directory [fresh_tenant True] []) = Some (fresh_tenant True)
   \<and> c_active (fresh_tenant True)
   \<and> process_entry (day_env 11 (Inr (JBool True))) (fresh_tenant True) malformed_comment_entry
        (snd (log_webhook ''instagram_event''
                (JObj [(''entry'', JArr [malformed_comment_entry, dm_entry])]) (Some 1)
                (directory [fresh_tenant True] [])))
       = (Inl (AttributeError ''object has no attribute get''),
          snd (log_webhook ''instagram_event''
                (JObj [(''entry'', JArr [malformed_comment_entry, dm_entry])]) (Some 1)
                (directory [fresh_tenant True] [])))
   \<and> webhook_receive (day_env 11 (Inr (JBool True))) ''verify''
        (JObj [(''entry'', JArr [malformed_comment_entry, dm_entry])])
        (directory [fresh_tenant True] [])
       = ((JStr ''ERROR'', 500),
          snd (log_webhook ''instagram_event''
                (JObj [(''entry'', JArr [malformed_comment_entry, dm_entry])]) (Some 1)
                (directory [fresh_tenant True] [])))
   \<and> map processed
        (webhooks (snd (log_webhook ''instagram_event''
                (JObj [(''entry'', JArr [malformed_comment_entry, dm_entry])]) (Some 1)
                (directory [fresh_tenant True] [])))) = [False]
   \<and> fst (for_each (process_entry (day_env 11 (Inl (AdapterError ''boom''))) (fresh_tenant True))
        [dm_entry, dm_entry]
        (snd (log_webhook ''instagram_event'' (JObj [(''entry'', JArr [dm_entry, dm_entry])])
                (Some 1) (directory [fresh_tenant True] [])))) = Inr ()
   \<and> fst (webhook_receive (day_env 11 (Inl (AdapterError ''boom''))) ''verify''
        (JObj [(''entry'', JArr [dm_entry, dm_entry])]) (directory [fresh_tenant True] []))
       = (JStr ''EVENT_RECEIVED'', 200)
   \<and> map processed
        (webhooks (snd (webhook_receive (day_env 11 (Inl (AdapterError ''boom''))) ''verify''
           (JObj [(''entry'', JArr [dm_entry, dm_entry])]) (directory [fresh_tenant True] []))))
       = [True]
   \<and> map m_error
        (messages (snd (for_each
           (process_entry (day_env 11 (Inl (AdapterError ''boom''))) (fresh_tenant True))
           [dm_entry, dm_entry]
           (snd (log_webhook ''instagram_event'' (JObj [(''entry'', JArr [dm_entry, dm_entry])])
                   (Some 1) (directory [fresh_tenant True] [])))))) = [Some ''boom'', Some ''boom'']"
proof -
  let ?w = "directory [fresh_tenant True] []"
  let ?cl = "fresh_tenant True"
  let ?e = "day_env 11 (Inr (JBool True))"
  let ?x = "day_env 11 (Inl (AdapterError ''boom''))"
  let ?d2 = "JObj [(''entry'', JArr [malformed_comment_entry, dm_entry])]"
  let ?d1 = "JObj [(''entry'', JArr [dm_entry, dm_entry])]"
  let ?w1 = "snd (log_webhook ''instagram_event'' ?d2 (Some 1) ?w)"
  let ?v1 = "snd (log_webhook ''instagram_event'' ?d1 (Some 1) ?w)"
  let ?run = "for_each (process_entry ?x ?cl) [dm_entry, dm_entry] ?v1"
  have res: "get_client_by_verify_token ''verify'' ?w = Some ?cl"
    by (simp add: example_defs fresh_tenant_def get_client_by_verify_token_def)
  have act: "c_active ?cl" and id1: "c_id ?cl = 1"
    by (simp_all add: example_defs fresh_tenant_def)
  have s2: "py_subscript ?d2 ''entry'' = Inr (JArr [malformed_comment_entry, dm_entry])"
    and s1: "py_subscript ?d1 ''entry'' = Inr (JArr [dm_entry, dm_entry])"
    by simp_all
  have pre: "for_each (process_entry ?e ?cl) [] ?w1 = (Inr (), ?w1)"
    by simp
  have bad: "process_entry ?e ?cl malformed_comment_entry ?w1
               = (Inl (AttributeError ''object has no attribute get''), ?w1)"
    by (simp add: process_entry_def process_change_event_def or_raise_def
          malformed_comment_entry_def)
  have logged: "webhooks ?w = []"
    by (simp add: example_defs)
  have good: "fst ?run = Inr () \<and> map m_error (messages (snd ?run)) = [Some ''boom'', Some ''boom'']"
    by (simp add: quota_defs example_defs fresh_tenant_def process_message_def
          process_message_except_def select_response_def log_message_def make_request_def
          api_send_message_def any_word_in_def get_default_response_def py_lower_def or_raise_def
          process_messaging_event_def process_entry_def log_webhook_def dm_entry_def dm_event_def)
  then have good': "?run = (Inr (), snd ?run)"
    by (metis prod.collapse)
  have failed: "webhook_receive ?e ''verify'' ?d2 ?w = ((JStr ''ERROR'', 500), ?w1)"
    using webhook_entry_failure_aborts_delivery [OF res act s2, of "[]" malformed_comment_entry
            "[dm_entry]" ?e ?w1 "AttributeError ''object has no attribute get''" ?w1 ?w1]
      pre bad
    by (simp add: id1 del: for_each.simps)
  have unmarked: "map processed (webhooks ?w1) = [False]"
    by (simp add: log_webhook_def example_defs Let_def)
  note run2 = webhook_entry_failure_aborts_delivery [OF res act s1, of "[]" dm_entry "[dm_entry]"
      ?x ?v1 "AttributeError ''object has no attribute get''" ?v1 "snd ?run", unfolded id1]
  from run2 good'
  have recv: "webhook_receive ?x ''verify'' ?d1 ?w
          = ((JStr ''EVENT_RECEIVED'', 200),
             mark_webhook_processed ?x
               (w_id (fst (log_webhook ''instagram_event'' ?d1 (Some 1) ?w))) None (snd ?run))"
    and marked: "webhooks (snd (webhook_receive ?x ''verify'' ?d1 ?w))
          = webhooks ?w @
              [(fst (log_webhook ''instagram_event'' ?d1 (Some 1) ?w))
                 \<lparr>processed := True, processed_at := Some (clock ?x (ticks (snd ?run)))\<rparr>]"
    by blast+
  have "fst (webhook_receive ?x ''verify'' ?d1 ?w) = (JStr ''EVENT_RECEIVED'', 200)
        \<and> map processed (webhooks (snd (webhook_receive ?x ''verify'' ?d1 ?w))) = [True]"
    by (simp add: marked logged) (simp add: recv)
  then show ?thesis
    using res act bad failed unmarked good
    by (simp del: for_each.simps)
qed

section \<open>Authenticated send API\<close>

lemma get_client_api_keys: "get_client cid (w\<lparr>api_keys := ks\<rparr>) = get_client cid w"
  by (simp add: get_client_def)

lemma validate_found:
  assumes "find (\<lambda>k. k_key k = key \<and> k_active k) (api_keys w) = Some ak"
  shows "fst (validate_api_key e key w) = get_client (k_client_id ak) w
       \<and> api_calls (snd (validate_api_key e key w)) = api_calls w
       \<and> messages (snd (validate_api_key e key w)) = messages w"
  using assms by (simp add: validate_api_key_def utcnow_def Let_def get_client_def)

text \<open>
  C10. \<open>validate_api_key\<close> tests the key's own \<open>active\<close> flag only. For a tenant
  with \<open>active\<close> false that still has an active key, validation returns the
  tenant, and the send API issues the request with that tenant's credentials;
  when the adapter returns, the call answers 200 and the message is recorded for
  the tenant.
\<close>

theorem inactive_tenant_key_still_sends:
  assumes "find (\<lambda>k. k_key k = key \<and> k_active k) (api_keys w) = Some ak"
    and "get_client (k_client_id ak) w = Some cl"
    and "\<not> c_active cl"
    and "key \<noteq> []"
    and "py_subscript data ''recipient_id'' = Inr (JStr rid)"
    and "py_subscript data ''message'' = Inr (JStr txt)"
  shows "fst (validate_api_key e key w) = Some cl
       \<and> api_calls (snd (send_message e (Some key) data w))
           = api_calls w @ [Send_message (instagram_account_id cl) (access_token cl) (JStr rid)
                              (JStr txt)]
       \<and> (api_reply e (length (api_calls w)) = Inr result \<longrightarrow>
            fst (send_message e (Some key) data w)
              = (JObj [(''success'', JBool True), (''result'', result)], 200)
          \<and> messages (snd (send_message e (Some key) data w))
              = messages w @ [\<lparr>m_client_id = c_id cl, recipient_id = JStr rid,
                   message_type = ''dm'', message_text = JStr txt, media_url = None,
                   sent = truthy result, m_error = None\<rparr>])"
proof -
  obtain w1 where v: "validate_api_key e key w = (Some cl, w1)"
    and w1: "api_calls w1 = api_calls w" "messages w1 = messages w"
    using validate_found [OF assms(1), of e] assms(2)
    by (cases "validate_api_key e key w") simp
  have run: "send_message e (Some key) data w = send_message_view e data cl w1"
    using assms(4) v by (simp add: send_message_def require_api_key_def)
  let ?w2 = "w1\<lparr>api_calls := api_calls w1 @
               [Send_message (instagram_account_id cl) (access_token cl) (JStr rid) (JStr txt)]\<rparr>"
  have calls: "api_calls (snd (send_message_view e data cl w1))
                 = api_calls w @ [Send_message (instagram_account_id cl) (access_token cl)
                                    (JStr rid) (JStr txt)]"
  proof (cases "api_reply e (length (api_calls w1))")
    case (Inl err)
    then show ?thesis
      using assms(5,6) by (simp add: send_message_view_def or_raise_def send_outcome w1)
  next
    case (Inr result)
    let ?l = "log_message e (c_id cl) (JStr rid) ''dm'' (JStr txt) None (truthy result) None ?w2"
    have "api_calls (snd ?l) = api_calls ?w2" by (rule log_message_keeps_calls)
    then show ?thesis
      using assms(5,6) Inr
      by (cases ?l; cases "fst ?l") (simp_all add: send_message_view_def or_raise_def
            send_outcome w1)
  qed
  have ok: "fst (send_message_view e data cl w1)
              = (JObj [(''success'', JBool True), (''result'', result)], 200)
          \<and> messages (snd (send_message_view e data cl w1))
              = messages w @ [\<lparr>m_client_id = c_id cl, recipient_id = JStr rid,
                   message_type = ''dm'', message_text = JStr txt, media_url = None,
                   sent = truthy result, m_error = None\<rparr>]"
    if "api_reply e (length (api_calls w)) = Inr result"
    using that assms(5,6)
    by (simp add: send_message_view_def or_raise_def send_outcome w1 log_message_stored
          increment_keeps_log)
  show ?thesis
    using v calls ok by (simp add: run)
qed

theorem inactive_tenant_key_still_sends_witness:
  "fst (deactivate_client (day_env 11 (Inr (JBool True))) 1 (directory [fresh_tenant True] [live_key]))
   \<and> find (\<lambda>k. k_key k = ''sk_live'' \<and> k_active k) (api_keys soft_deleted) = Some live_key
   \<and> map_option c_active (get_client (k_client_id live_key) soft_deleted) = Some False
   \<and> map_option c_active (fst (validate_api_key (day_env 11 (Inr (JBool True))) ''sk_live'' soft_deleted))
       = Some False
   \<and> api_calls (snd (send_message (day_env 11 (Inr (JBool True))) (Some ''sk_live'') send_body
                       soft_deleted))
       = [Send_message ''account'' ''token'' (JStr ''user-9'') (JStr ''hello'')]
   \<and> fst (send_message (day_env 11 (Inr (JBool True))) (Some ''sk_live'') send_body soft_deleted)
       = (JObj [(''success'', JBool True), (''result'', JBool True)], 200)
   \<and> map (\<lambda>m. (m_client_id m, sent m))
        (messages (snd (send_message (day_env 11 (Inr (JBool True))) (Some ''sk_live'') send_body
                          soft_deleted))) = [(1, True)]"
proof -
  let ?e = "day_env 11 (Inr (JBool True))"
  let ?cl = "(fresh_tenant True)\<lparr>c_active := False, updated_at := Some (DateTime 11 0)\<rparr>"
  have sd: "soft_deleted = (directory [?cl] [live_key])\<lparr>ticks := 1\<rparr>"
    and de: "fst (deactivate_client ?e 1 (directory [fresh_tenant True] [live_key]))"
    by (simp_all add: soft_deleted_def deactivate_client_def update_client_def quota_defs
          example_defs fresh_tenant_def)
  have k: "find (\<lambda>k. k_key k = ''sk_live'' \<and> k_active k) (api_keys soft_deleted) = Some live_key"
    by (simp add: sd directory_def live_key_def)
  have c: "get_client (k_client_id live_key) soft_deleted = Some ?cl"
    by (simp add: sd quota_defs example_defs fresh_tenant_def live_key_def)
  have off: "\<not> c_active ?cl" by simp
  have key: "''sk_live'' \<noteq> []" by simp
  have r: "py_subscript send_body ''recipient_id'' = Inr (JStr ''user-9'')"
    and m: "py_subscript send_body ''message'' = Inr (JStr ''hello'')"
    by (simp_all add: send_body_def)
  have env: "api_reply ?e (length (api_calls soft_deleted)) = Inr (JBool True)"
    by (simp add: sd quota_defs example_defs fresh_tenant_def)
  have fields: "instagram_account_id ?cl = ''account''" "access_token ?cl = ''token''" "c_id ?cl = 1"
    "api_calls soft_deleted = []" "messages soft_deleted = []"
    by (simp_all add: sd quota_defs example_defs fresh_tenant_def)
  show ?thesis
    using inactive_tenant_key_still_sends [OF k c off key r m, of ?e "JBool True"] de k c env fields
    by simp
qed

end
